theory Spec2Isabelle
  imports Main
begin

section \<open>Python objects and the interpreter's thread state\<close>

text \<open>
  The engine of \<^verbatim>\<open>ngx_python.c\<close> runs a compiled Python expression on a stack of its
  own, switches between that stack and the caller's with \<^verbatim>\<open>swapcontext\<close>, and swaps
  five fields of the interpreter's thread state around every switch.  Python objects are
  opaque to the engine: a pointer to one is \<open>Some obj\<close>, the C \<^verbatim>\<open>NULL\<close> is \<open>None\<close>.
\<close>

datatype pyobject =
    PyExc_RuntimeError
  | PyExc_OSError
  | PyExc_MemoryError
  | PyExc_KeyError
  | PyString string
  | PyErrno
  | PyObj nat

text \<open>
  Modelled from the spec: the macro \<^verbatim>\<open>NGX_PYTHON_AGAIN\<close> is declared in
  \<^verbatim>\<open>ngx_python.h\<close>, which is not among the sources.  The spec calls it the pending
  sentinel, "distinct from any real value"; so the result slot and the value a step
  returns are \<^verbatim>\<open>NULL\<close>, the sentinel, or a pointer to an object.
\<close>

datatype result_ptr = NULL | NGX_PYTHON_AGAIN | Object pyobject

fun ptr_of :: "pyobject option \<Rightarrow> result_ptr" where
  "ptr_of None = NULL"
| "ptr_of (Some v) = Object v"

text \<open>The fields of \<^verbatim>\<open>PyThreadState\<close> that \<^verbatim>\<open>ngx_python_eval\<close> saves and restores.\<close>

record PyThreadState =
  recursion_depth :: int
  frame :: "nat option"
  curexc_type :: "pyobject option"
  curexc_value :: "pyobject option"
  curexc_traceback :: "pyobject option"

abbreviation NGX_OK :: int where "NGX_OK \<equiv> 0"
abbreviation NGX_ERROR :: int where "NGX_ERROR \<equiv> - 1"

definition PyErr_SetString :: "pyobject \<Rightarrow> string \<Rightarrow> PyThreadState \<Rightarrow> PyThreadState" where
  "PyErr_SetString t msg p =
     p\<lparr>curexc_type := Some t, curexc_value := Some (PyString msg), curexc_traceback := None\<rparr>"

definition PyErr_SetFromErrno :: "pyobject \<Rightarrow> PyThreadState \<Rightarrow> PyThreadState" where
  "PyErr_SetFromErrno t p =
     p\<lparr>curexc_type := Some t, curexc_value := Some PyErrno, curexc_traceback := None\<rparr>"

definition PyErr_NoMemory :: "PyThreadState \<Rightarrow> PyThreadState" where
  "PyErr_NoMemory p =
     p\<lparr>curexc_type := Some PyExc_MemoryError, curexc_value := None, curexc_traceback := None\<rparr>"

definition PyErr_Clear :: "PyThreadState \<Rightarrow> PyThreadState" where
  "PyErr_Clear p = p\<lparr>curexc_type := None, curexc_value := None, curexc_traceback := None\<rparr>"

section \<open>Compiled code as the engine sees it\<close>

text \<open>
  \<^verbatim>\<open>PyEval_EvalCode\<close> is the interpreter's, not the engine's.  What the engine can see
  of a compiled body is the sequence of things it does to the engine's world: it changes
  or reads the live thread state, reads or writes a name of the namespace it is
  evaluated against, calls \<^verbatim>\<open>ngx_python_yield\<close> (through a blocking call of the
  \<^verbatim>\<open>ngx\<close> module) and goes on with the code that call returns, calls
  \<^verbatim>\<open>ngx_python_eval\<close> on a task (a nested evaluation) and goes on with what that
  returns, and in the end returns an object or \<^verbatim>\<open>NULL\<close> (an exception).  A code
  object is identified with this behaviour.
\<close>

datatype body =
    Done "pyobject option"
  | Suspend "int \<Rightarrow> body"
  | Interp "PyThreadState \<Rightarrow> PyThreadState" body
  | Inspect "PyThreadState \<Rightarrow> body"
  | Load string "pyobject option \<Rightarrow> body"
  | Store string "pyobject option" body
  | Step nat "body option" "nat option" "result_ptr \<Rightarrow> body"

section \<open>The task record\<close>

text \<open>
  A \<^verbatim>\<open>ucontext_t\<close>: the link, the stack, and the saved machine context.  The machine
  context saved by \<^verbatim>\<open>swapcontext\<close> inside \<^verbatim>\<open>ngx_python_yield\<close> is the rest of the
  body (waiting for the code the call returns) and the namespace of the suspended
  \<^verbatim>\<open>PyEval_EvalCode\<close>; the one made by \<^verbatim>\<open>makecontext\<close> is the entry of
  \<^verbatim>\<open>ngx_python_task_handler\<close>; the one saved inside \<^verbatim>\<open>ngx_python_eval\<close> is the
  caller's.
\<close>

datatype mcontext = Unset | In_eval | Task_entry | In_yield "int \<Rightarrow> body" nat

datatype ucontext_ptr = Ruc nat

record ucontext =
  uc_link :: "ucontext_ptr option"
  ss_sp :: "nat option"
  ss_size :: nat
  uc_mcontext :: mcontext

text \<open>
  \<^verbatim>\<open>struct ngx_python_ctx_s\<close>.  The five saved interpreter fields
  (\<^verbatim>\<open>recursion_depth\<close>, \<^verbatim>\<open>frame\<close>, \<^verbatim>\<open>exc_type\<close>, \<^verbatim>\<open>exc_value\<close>,
  \<^verbatim>\<open>exc_traceback\<close>) are the field \<open>saved\<close>; the resolver fields play no part in
  evaluation and are left out.  Events, pools, logs and namespaces are handles.
\<close>

record ngx_python_ctx_t =
  code :: "body option"
  ns :: nat
  result :: result_ptr
  wake :: "nat option"
  pool :: nat
  log :: nat
  stack_size :: nat
  stack :: "nat option"
  uc :: ucontext
  ruc :: ucontext
  saved :: PyThreadState
  terminate :: nat

datatype log_msg =
    Python_error "pyobject option" "pyobject option" "pyobject option"
  | Swapcontext_failed

text \<open>
  The world the engine runs in: the global \<^verbatim>\<open>ngx_python_ctx\<close>, the interpreter's
  thread state, the task records by address, the namespace dictionaries by handle, the
  error log, and the platform: \<open>faults\<close> scripts the next platform calls
  (\<^verbatim>\<open>ngx_palloc\<close>, \<^verbatim>\<open>getcontext\<close>, \<^verbatim>\<open>swapcontext\<close>, a dictionary insertion), a
  \<open>True\<close> making the call fail; past the end of the script every call succeeds.
\<close>

record state =
  ngx_python_ctx :: "nat option"
  ps :: PyThreadState
  ctxs :: "nat \<Rightarrow> ngx_python_ctx_t"
  dicts :: "nat \<Rightarrow> string \<Rightarrow> pyobject option"
  error_log :: "(nat \<times> log_msg) list"
  faults :: "bool list"
  heap_top :: nat

definition upd_ctx :: "nat \<Rightarrow> (ngx_python_ctx_t \<Rightarrow> ngx_python_ctx_t) \<Rightarrow> state \<Rightarrow> state" where
  "upd_ctx c f s = s\<lparr>ctxs := (ctxs s)(c := f (ctxs s c))\<rparr>"

definition platform_call :: "state \<Rightarrow> bool \<times> state" where
  "platform_call s =
     (case faults s of [] \<Rightarrow> (True, s) | f # fs \<Rightarrow> (\<not> f, s\<lparr>faults := fs\<rparr>))"

definition ngx_palloc :: "nat \<Rightarrow> state \<Rightarrow> nat option \<times> state" where
  "ngx_palloc sz s =
     (let (ok, s1) = platform_call s
      in if ok then (Some (heap_top s1), s1\<lparr>heap_top := heap_top s1 + sz\<rparr>) else (None, s1))"

text \<open>
  \<^verbatim>\<open>ngx_log_error(NGX_LOG_ERR, ctx->log, 0, "python error: %s", ngx_python_get_error(ctx->pool))\<close>:
  \<^verbatim>\<open>ngx_python_get_error\<close> fetches the pending exception, formats it and clears the
  error indicator.  The formatted text is kept as the exception it was made from.
  Debug messages (\<^verbatim>\<open>ngx_log_debug0\<close>) are compiled in only in a debugging build and are
  not part of the log here.
\<close>

definition log_python_error :: "nat \<Rightarrow> state \<Rightarrow> state" where
  "log_python_error c s =
     s\<lparr>error_log := error_log s @
          [(log (ctxs s c),
            Python_error (curexc_type (ps s)) (curexc_value (ps s)) (curexc_traceback (ps s)))],
       ps := PyErr_Clear (ps s)\<rparr>"

section \<open>The engine\<close>

definition ngx_python_get_ctx :: "state \<Rightarrow> nat option" where
  "ngx_python_get_ctx s = ngx_python_ctx s"

definition ngx_python_set_ctx :: "nat option \<Rightarrow> state \<Rightarrow> nat option \<times> state" where
  "ngx_python_set_ctx ctx s = (ngx_python_ctx s, s\<lparr>ngx_python_ctx := ctx\<rparr>)"

text \<open>
  \<^verbatim>\<open>ngx_python_yield\<close> up to its \<^verbatim>\<open>swapcontext\<close>.  \<open>k\<close> and \<open>env\<close> are the caller's
  continuation, which the switch saves in \<^verbatim>\<open>ctx->uc\<close>.  \<open>Inl\<close>: the call returns at
  once, with the code and the state; \<open>Inr\<close>: control has gone to \<^verbatim>\<open>ctx->ruc\<close>.
\<close>

definition ngx_python_yield :: "(int \<Rightarrow> body) \<Rightarrow> nat \<Rightarrow> state \<Rightarrow> (int \<times> state) + state" where
  "ngx_python_yield k env s =
     (case ngx_python_get_ctx s of
        None \<Rightarrow>
          Inl (NGX_ERROR,
               s\<lparr>ps := PyErr_SetString PyExc_RuntimeError ''blocking calls are not allowed'' (ps s)\<rparr>)
      | Some c \<Rightarrow>
          (let (ok, s1) = platform_call s
           in if \<not> ok then Inl (NGX_ERROR, s1\<lparr>ps := PyErr_SetFromErrno PyExc_OSError (ps s1)\<rparr>)
              else Inr (upd_ctx c (\<lambda>x. x\<lparr>uc := (uc x)\<lparr>uc_mcontext := In_yield k env\<rparr>\<rparr>) s1)))"

text \<open>\<^verbatim>\<open>ngx_python_yield\<close> from the return of its \<^verbatim>\<open>swapcontext\<close>, when the task is resumed.\<close>

definition ngx_python_yield_regain :: "nat \<Rightarrow> state \<Rightarrow> int \<times> state" where
  "ngx_python_yield_regain c s =
     (if terminate (ctxs s c) \<noteq> 0
      then (NGX_ERROR, s\<lparr>ps := PyErr_SetString PyExc_RuntimeError ''terminated'' (ps s)\<rparr>)
      else (NGX_OK, s))"

text \<open>
  The record that \<^verbatim>\<open>ngx_python_create_ctx\<close> returns when it succeeds: zeroed by
  \<^verbatim>\<open>ngx_pcalloc\<close>, then \<^verbatim>\<open>pool\<close>, \<^verbatim>\<open>log\<close>, \<^verbatim>\<open>ns\<close> and \<^verbatim>\<open>stack_size\<close> set.
\<close>

definition zero_ps :: PyThreadState where
  "zero_ps = \<lparr>recursion_depth = 0, frame = None, curexc_type = None, curexc_value = None,
              curexc_traceback = None\<rparr>"

definition zero_uc :: ucontext where
  "zero_uc = \<lparr>uc_link = None, ss_sp = None, ss_size = 0, uc_mcontext = Unset\<rparr>"

definition created_ctx :: "nat \<Rightarrow> nat \<Rightarrow> nat \<Rightarrow> nat \<Rightarrow> ngx_python_ctx_t" where
  "created_ctx pl lg d sz =
     \<lparr>code = None, ns = d, result = NULL, wake = None, pool = pl, log = lg, stack_size = sz,
      stack = None, uc = zero_uc, ruc = zero_uc, saved = zero_ps, terminate = 0\<rparr>"

text \<open>
  The first-step block of \<^verbatim>\<open>ngx_python_eval\<close> (\<^verbatim>\<open>if (ctx->result == NULL) { ... }\<close>).
  \<open>Inl\<close>: the function returns \<^verbatim>\<open>NULL\<close> from inside the block; \<open>Inr\<close>: it goes on.
\<close>

definition ngx_python_eval_start :: "nat \<Rightarrow> body option \<Rightarrow> nat \<Rightarrow> state \<Rightarrow> state + state" where
  "ngx_python_eval_start c cd w s =
     (if result (ctxs s c) \<noteq> NULL then Inr s
      else
        (let s1 = (if stack (ctxs s c) = None
                   then (let (p, s') = ngx_palloc (stack_size (ctxs s c)) s
                         in upd_ctx c (\<lambda>x. x\<lparr>stack := p\<rparr>) s')
                   else s)
         in if stack (ctxs s1 c) = None then Inl s1
            else
              (let (ok, s2) = platform_call s1
               in if \<not> ok then Inl s2
                  else Inr (upd_ctx c
                              (\<lambda>x. x\<lparr>uc := \<lparr>uc_link = Some (Ruc c), ss_sp = stack x,
                                            ss_size = stack_size x, uc_mcontext = Task_entry\<rparr>,
                                     code := cd, wake := Some w, result := NGX_PYTHON_AGAIN\<rparr>)
                              s2))))"

text \<open>
  \<^verbatim>\<open>ngx_python_eval\<close> from \<^verbatim>\<open>ngx_python_set_ctx(ctx)\<close> to its \<^verbatim>\<open>swapcontext\<close>: the
  task becomes the active one, the live thread state is kept in locals and the task's
  saved one is installed.  The result is the previous active task, the caller's thread
  state and the new state.
\<close>

definition ngx_python_eval_enter :: "nat \<Rightarrow> state \<Rightarrow> nat option \<times> PyThreadState \<times> state" where
  "ngx_python_eval_enter c s =
     (let (pctx, s1) = ngx_python_set_ctx (Some c) s
      in (pctx, ps s1, s1\<lparr>ps := saved (ctxs s1 c)\<rparr>))"

text \<open>
  \<^verbatim>\<open>swapcontext(&ctx->ruc, &ctx->uc)\<close> saves the caller's context in \<^verbatim>\<open>ctx->ruc\<close>
  before control goes to \<^verbatim>\<open>ctx->uc\<close>; when it fails, \<^verbatim>\<open>ngx_python_eval\<close> logs
  \<^verbatim>\<open>"swapcontext() failed"\<close> and goes on.
\<close>

definition save_ruc :: "nat \<Rightarrow> state \<Rightarrow> state" where
  "save_ruc c s = upd_ctx c (\<lambda>x. x\<lparr>ruc := (ruc x)\<lparr>uc_mcontext := In_eval\<rparr>\<rparr>) s"

definition log_swapcontext_failed :: "nat \<Rightarrow> state \<Rightarrow> state" where
  "log_swapcontext_failed c s =
     s\<lparr>error_log := error_log s @ [(log (ctxs s c), Swapcontext_failed)]\<rparr>"

text \<open>
  The end of \<^verbatim>\<open>ngx_python_eval\<close> after its \<^verbatim>\<open>swapcontext\<close>: the live thread state
  goes into the task, the caller's (\<open>live\<close>) and the caller's active task (\<open>pctx\<close>) come
  back, and the result slot decides what is returned.
\<close>

definition ngx_python_eval_finish ::
  "nat \<Rightarrow> PyThreadState \<Rightarrow> nat option \<Rightarrow> state \<Rightarrow> result_ptr \<times> state" where
  "ngx_python_eval_finish c live pctx s =
     (let s1 = upd_ctx c (\<lambda>x. x\<lparr>saved := ps s\<rparr>) s;
          s2 = s1\<lparr>ps := live\<rparr>;
          s3 = snd (ngx_python_set_ctx pctx s2);
          r = result (ctxs s3 c)
      in if r \<noteq> NGX_PYTHON_AGAIN
         then (r, upd_ctx c (\<lambda>x. x\<lparr>code := None, wake := None, result := NULL\<rparr>) s3)
         else (r, s3))"

text \<open>
  The end of \<^verbatim>\<open>ngx_python_task_handler\<close>, once \<^verbatim>\<open>PyEval_EvalCode\<close> has returned \<open>r\<close>:
  the result is stored and an exception is logged.  Returning from the handler resumes
  \<^verbatim>\<open>uc_link\<close>, the caller.
\<close>

definition task_handler_return :: "nat \<Rightarrow> pyobject option \<Rightarrow> state \<Rightarrow> state" where
  "task_handler_return c r s =
     (let s1 = upd_ctx c (\<lambda>x. x\<lparr>result := ptr_of r\<rparr>) s
      in if r = None then log_python_error c s1 else s1)"

text \<open>
  The end of \<^verbatim>\<open>ngx_python_eval\<close> when no wake event was given: \<^verbatim>\<open>PyEval_EvalCode\<close>
  has returned \<open>r\<close>; an exception is logged, the previous active task comes back.
\<close>

definition ngx_python_eval_direct_return ::
  "nat \<Rightarrow> nat option \<Rightarrow> pyobject option \<Rightarrow> state \<Rightarrow> result_ptr \<times> state" where
  "ngx_python_eval_direct_return c pctx r s =
     (let s1 = (if r = None then log_python_error c s else s)
      in (ptr_of r, snd (ngx_python_set_ctx pctx s1)))"

datatype outcome = Finished "pyobject option" | Switched

text \<open>
  The four routines that call each other, on a fuel that bounds the calls: \<open>None\<close> is
  no result (the fuel ran out; or the C code has no defined behaviour: a \<^verbatim>\<open>NULL\<close> code
  object is evaluated, a context never made is resumed).  An evaluation with no wake
  event has no context to switch back to; its \<open>Switched\<close> case cannot arise, since
  \<^verbatim>\<open>ngx_python_yield\<close> does not switch while no task is active.

  \<^item> \<open>PyEval_EvalCode n b env s\<close> runs the body \<open>b\<close> against the namespace \<open>env\<close>, until
    it returns (\<open>Finished\<close>) or a \<^verbatim>\<open>ngx_python_yield\<close> of its own switches to the
    caller's context (\<open>Switched\<close>).
  \<^item> \<open>ngx_python_task_handler\<close> is the entry routine.
  \<^item> \<open>setcontext_uc n c s\<close> is control arriving in \<^verbatim>\<open>ctx->uc\<close>, up to the moment it
    comes back to \<^verbatim>\<open>ctx->ruc\<close>.
  \<^item> \<open>ngx_python_eval\<close> is the step.
\<close>

fun PyEval_EvalCode :: "nat \<Rightarrow> body \<Rightarrow> nat \<Rightarrow> state \<Rightarrow> (outcome \<times> state) option"
  and ngx_python_task_handler :: "nat \<Rightarrow> state \<Rightarrow> state option"
  and setcontext_uc :: "nat \<Rightarrow> nat \<Rightarrow> state \<Rightarrow> state option"
  and ngx_python_eval ::
    "nat \<Rightarrow> nat \<Rightarrow> body option \<Rightarrow> nat option \<Rightarrow> state \<Rightarrow> (result_ptr \<times> state) option"
where
  "PyEval_EvalCode 0 b env s = None"
| "PyEval_EvalCode (Suc n) (Done r) env s = Some (Finished r, s)"
| "PyEval_EvalCode (Suc n) (Suspend k) env s =
     (case ngx_python_yield k env s of
        Inl (rc, s1) \<Rightarrow> PyEval_EvalCode n (k rc) env s1
      | Inr s1 \<Rightarrow> Some (Switched, s1))"
| "PyEval_EvalCode (Suc n) (Interp f b) env s = PyEval_EvalCode n b env (s\<lparr>ps := f (ps s)\<rparr>)"
| "PyEval_EvalCode (Suc n) (Inspect k) env s = PyEval_EvalCode n (k (ps s)) env s"
| "PyEval_EvalCode (Suc n) (Load x k) env s = PyEval_EvalCode n (k (dicts s env x)) env s"
| "PyEval_EvalCode (Suc n) (Store x v b) env s =
     PyEval_EvalCode n b env (s\<lparr>dicts := (dicts s)(env := (dicts s env)(x := v))\<rparr>)"
| "PyEval_EvalCode (Suc n) (Step c cd w k) env s =
     (case ngx_python_eval n c cd w s of
        None \<Rightarrow> None
      | Some (r, s1) \<Rightarrow> PyEval_EvalCode n (k r) env s1)"
| "ngx_python_task_handler 0 s = None"
| "ngx_python_task_handler (Suc n) s =
     (case ngx_python_get_ctx s of
        None \<Rightarrow> None
      | Some c \<Rightarrow>
          (case code (ctxs s c) of
             None \<Rightarrow> None
           | Some b \<Rightarrow>
               (case PyEval_EvalCode n b (ns (ctxs s c)) s of
                  None \<Rightarrow> None
                | Some (Finished r, s1) \<Rightarrow> Some (task_handler_return c r s1)
                | Some (Switched, s1) \<Rightarrow> Some s1)))"
| "setcontext_uc 0 c s = None"
| "setcontext_uc (Suc n) c s =
     (case uc_mcontext (uc (ctxs s c)) of
        Task_entry \<Rightarrow> ngx_python_task_handler n s
      | In_yield k env \<Rightarrow>
          (let (rc, s1) = ngx_python_yield_regain c s
           in case PyEval_EvalCode n (k rc) env s1 of
                None \<Rightarrow> None
              | Some (Finished r, s2) \<Rightarrow> Some (task_handler_return c r s2)
              | Some (Switched, s2) \<Rightarrow> Some s2)
      | _ \<Rightarrow> None)"
| "ngx_python_eval 0 c cd w s = None"
| "ngx_python_eval (Suc n) c cd (Some w) s =
     (case ngx_python_eval_start c cd w s of
        Inl s1 \<Rightarrow> Some (NULL, s1)
      | Inr s1 \<Rightarrow>
          (let (pctx, live, s2) = ngx_python_eval_enter c s1;
               (ok, s3) = platform_call s2
           in case (if ok then setcontext_uc n c (save_ruc c s3)
                    else Some (log_swapcontext_failed c s3)) of
                None \<Rightarrow> None
              | Some s4 \<Rightarrow> Some (ngx_python_eval_finish c live pctx s4)))"
| "ngx_python_eval (Suc n) c cd None s =
     (let (pctx, s1) = ngx_python_set_ctx None s
      in case cd of
           None \<Rightarrow> None
         | Some b \<Rightarrow>
             (case PyEval_EvalCode n b (ns (ctxs s1 c)) s1 of
                None \<Rightarrow> None
              | Some (Switched, s2) \<Rightarrow> None
              | Some (Finished r, s2) \<Rightarrow> Some (ngx_python_eval_direct_return c pctx r s2)))"



section \<open>Named bindings of the namespace\<close>

text \<open>
  The dictionary calls of the Python C API that \<^verbatim>\<open>ngx_python_set_value\<close> and
  \<^verbatim>\<open>ngx_python_reset_value\<close> use.  An insertion is a platform call (it allocates and
  may fail with \<^verbatim>\<open>MemoryError\<close>); a deletion fails with \<^verbatim>\<open>KeyError\<close> when the name
  is not bound.
\<close>

definition PyDict_GetItemString :: "nat \<Rightarrow> string \<Rightarrow> state \<Rightarrow> pyobject option" where
  "PyDict_GetItemString d name s = dicts s d name"

definition PyDict_SetItemString :: "nat \<Rightarrow> string \<Rightarrow> pyobject \<Rightarrow> state \<Rightarrow> int \<times> state" where
  "PyDict_SetItemString d name v s =
     (let (ok, s1) = platform_call s
      in if ok then (0, s1\<lparr>dicts := (dicts s1)(d := (dicts s1 d)(name := Some v))\<rparr>)
         else (- 1, s1\<lparr>ps := PyErr_NoMemory (ps s1)\<rparr>))"

definition PyDict_DelItemString :: "nat \<Rightarrow> string \<Rightarrow> state \<Rightarrow> int \<times> state" where
  "PyDict_DelItemString d name s =
     (if dicts s d name = None
      then (- 1, s\<lparr>ps := PyErr_SetString PyExc_KeyError name (ps s)\<rparr>)
      else (0, s\<lparr>dicts := (dicts s)(d := (dicts s d)(name := None))\<rparr>))"

definition ngx_python_set_value ::
  "nat \<Rightarrow> string \<Rightarrow> pyobject \<Rightarrow> state \<Rightarrow> pyobject option \<times> state" where
  "ngx_python_set_value c name v s =
     (let old = PyDict_GetItemString (ns (ctxs s c)) name s
      in if old = None
         then (let (rc, s1) = PyDict_SetItemString (ns (ctxs s c)) name v s
               in (old, if rc < 0 then log_python_error c s1 else s1))
         else (old, s))"

definition ngx_python_reset_value :: "nat \<Rightarrow> string \<Rightarrow> pyobject option \<Rightarrow> state \<Rightarrow> state" where
  "ngx_python_reset_value c name old s =
     (if old = None
      then (let (rc, s1) = PyDict_DelItemString (ns (ctxs s c)) name s
            in if rc < 0 then log_python_error c s1 else s1)
      else s)"

section \<open>Auxiliary notions of the proofs\<close>

text \<open>
  \<open>kept s s'\<close>: what no routine of the engine writes once a task is in use is the same in
  \<open>s'\<close> as in \<open>s\<close>: the termination flag (only the cleanup handler sets it), the
  namespace, pool, log and stack size of every task, and a stack once it is allocated.
\<close>

definition kept :: "state \<Rightarrow> state \<Rightarrow> bool" where
  "kept s s' \<longleftrightarrow>
     (\<forall>c. terminate (ctxs s' c) = terminate (ctxs s c) \<and> ns (ctxs s' c) = ns (ctxs s c) \<and>
          pool (ctxs s' c) = pool (ctxs s c) \<and> log (ctxs s' c) = log (ctxs s c) \<and>
          stack_size (ctxs s' c) = stack_size (ctxs s c) \<and>
          (stack (ctxs s c) \<noteq> None \<longrightarrow> stack (ctxs s' c) = stack (ctxs s c)))"

definition kept_upto :: "nat \<Rightarrow> bool" where
  "kept_upto n \<longleftrightarrow>
     (\<forall>b env s oc s'. PyEval_EvalCode n b env s = Some (oc, s') \<longrightarrow> kept s s') \<and>
     (\<forall>s s'. ngx_python_task_handler n s = Some s' \<longrightarrow> kept s s') \<and>
     (\<forall>c s s'. setcontext_uc n c s = Some s' \<longrightarrow> kept s s') \<and>
     (\<forall>c cd w s r s'. ngx_python_eval n c cd w s = Some (r, s') \<longrightarrow> kept s s')"

text \<open>
  A worker at rest, for the examples: no task is active, the thread state is clear, every
  task record is as \<^verbatim>\<open>ngx_python_create_ctx\<close> leaves it (pool, log and namespace 0,
  the default stack size of \<^verbatim>\<open>ngx_python_init_conf\<close>), the namespaces are empty and
  the platform does not fail.
\<close>

definition idle_state :: state where
  "idle_state =
     \<lparr>ngx_python_ctx = None, ps = zero_ps, ctxs = (\<lambda>_. created_ctx 0 0 0 32768),
      dicts = (\<lambda>_ _. None), error_log = [], faults = [], heap_top = 4096\<rparr>"

text \<open>
  Task 0 in the middle of its body: it is the active task, and the live thread state is
  its own (a frame, a recursion depth, a pending exception).
\<close>

definition running_state :: state where
  "running_state =
     idle_state\<lparr>ngx_python_ctx := Some 0,
       ps := \<lparr>recursion_depth = 3, frame = Some 11, curexc_type = Some PyExc_KeyError,
              curexc_value = Some (PyString ''k''), curexc_traceback = Some (PyObj 5)\<rparr>\<rparr>"

text \<open>A body that changes the thread state and raises.\<close>

definition raising_body :: body where
  "raising_body =
     Interp (\<lambda>p. PyErr_SetString PyExc_RuntimeError ''boom''
                   (p\<lparr>recursion_depth := 7, frame := Some 99\<rparr>))
       (Done None)"

text \<open>
  A body with one blocking call: it returns an object when the call succeeds and raises
  when it fails.  \<open>pending_state\<close> is the worker after the first step of task 0 on it
  (the task is suspended inside the call), \<open>terminating_state\<close> the same once the
  cleanup handler has set the termination flag.
\<close>

definition sleeping_body :: body where
  "sleeping_body = Suspend (\<lambda>rc. if rc = NGX_OK then Done (Some (PyObj 1)) else Done None)"

definition pending_state :: state where
  "pending_state =
     snd (the (ngx_python_eval (Suc (Suc (Suc (Suc 0)))) 0 (Some sleeping_body) (Some 7) idle_state))"

definition terminating_state :: state where
  "terminating_state = upd_ctx 0 (\<lambda>x. x\<lparr>terminate := 1\<rparr>) pending_state"

text \<open>
  A body that counts its runs in the name \<open>n\<close> of its namespace and returns an object;
  \<open>completed_state\<close> is the worker after task 0 has run it to completion in one step.
\<close>

definition counting_body :: body where
  "counting_body =
     Load ''n'' (\<lambda>v. Store ''n'' (Some (PyObj (case v of Some (PyObj m) \<Rightarrow> Suc m | _ \<Rightarrow> 1)))
                      (Done (Some (PyObj 0))))"

definition completed_state :: state where
  "completed_state =
     snd (the (ngx_python_eval (Suc (Suc (Suc (Suc (Suc (Suc 0)))))) 0 (Some counting_body) (Some 7)
                 idle_state))"

text \<open>
  Kinds of bodies.  A \<open>stepless\<close> body makes no nested step; a \<open>plain\<close> one makes no
  blocking call either.
\<close>

inductive stepless :: "body \<Rightarrow> bool" where
  "stepless (Done r)"
| "(\<And>rc. stepless (k rc)) \<Longrightarrow> stepless (Suspend k)"
| "stepless b \<Longrightarrow> stepless (Interp f b)"
| "(\<And>p. stepless (k p)) \<Longrightarrow> stepless (Inspect k)"
| "(\<And>v. stepless (k v)) \<Longrightarrow> stepless (Load x k)"
| "stepless b \<Longrightarrow> stepless (Store x v b)"

inductive plain :: "body \<Rightarrow> bool" where
  "plain (Done r)"
| "plain b \<Longrightarrow> plain (Interp f b)"
| "(\<And>p. plain (k p)) \<Longrightarrow> plain (Inspect k)"
| "(\<And>v. plain (k v)) \<Longrightarrow> plain (Load x k)"
| "plain b \<Longrightarrow> plain (Store x v b)"



text \<open>
  A body with three blocking calls, which looks at its namespace after the first has
  failed and at the pending exception after the second: it goes on to the next call when
  the name \<open>done\<close> is not bound, and when the exception is a \<^verbatim>\<open>RuntimeError\<close>.
  \<open>waiting_state\<close> is the worker after the first step of task 0 on it.
\<close>

definition waiting_body :: body where
  "waiting_body =
     Suspend (\<lambda>rc.
       Load ''done'' (\<lambda>v.
         if v \<noteq> None then Done None
         else Suspend (\<lambda>rc.
                Inspect (\<lambda>p.
                  if curexc_type p \<noteq> Some PyExc_RuntimeError then Done None
                  else Suspend (\<lambda>rc. Done (if rc = NGX_OK then Some (PyObj 1) else None))))))"

definition waiting_state :: state where
  "waiting_state =
     snd (the (ngx_python_eval (Suc (Suc (Suc (Suc 0)))) 0 (Some waiting_body) (Some 7) idle_state))"

section \<open>Basic facts\<close>

lemma platform_call_eq:
  "platform_call s = (faults s = [] \<or> \<not> hd (faults s), s\<lparr>faults := tl (faults s)\<rparr>)"
  by (cases "faults s") (simp_all add: platform_call_def)

lemma ngx_palloc_eq:
  "ngx_palloc sz s =
     (if faults s = [] \<or> \<not> hd (faults s)
      then (Some (heap_top s), s\<lparr>faults := tl (faults s), heap_top := heap_top s + sz\<rparr>)
      else (None, s\<lparr>faults := tl (faults s)\<rparr>))"
  by (simp add: ngx_palloc_def platform_call_eq)

lemma upd_ctx_fields [simp]:
  "ps (upd_ctx c f s) = ps s"
  "ngx_python_ctx (upd_ctx c f s) = ngx_python_ctx s"
  "dicts (upd_ctx c f s) = dicts s"
  "error_log (upd_ctx c f s) = error_log s"
  "faults (upd_ctx c f s) = faults s"
  "heap_top (upd_ctx c f s) = heap_top s"
  "ctxs (upd_ctx c f s) c = f (ctxs s c)"
  "c' \<noteq> c \<Longrightarrow> ctxs (upd_ctx c f s) c' = ctxs s c'"
  by (simp_all add: upd_ctx_def)

section \<open>The two binding calls\<close>

lemma set_value_bound:
  "dicts s (ns (ctxs s c)) name = Some old \<Longrightarrow> ngx_python_set_value c name v s = (Some old, s)"
  by (simp add: ngx_python_set_value_def PyDict_GetItemString_def)

lemma set_value_absent:
  "dicts s (ns (ctxs s c)) name = None \<Longrightarrow>
   ngx_python_set_value c name v s =
     (None,
      if faults s = [] \<or> \<not> hd (faults s)
      then s\<lparr>faults := tl (faults s),
             dicts := (dicts s)(ns (ctxs s c) := (dicts s (ns (ctxs s c)))(name := Some v))\<rparr>
      else log_python_error c (s\<lparr>faults := tl (faults s), ps := PyErr_NoMemory (ps s)\<rparr>))"
  by (simp add: ngx_python_set_value_def PyDict_GetItemString_def PyDict_SetItemString_def
      platform_call_eq)

lemma reset_value_dicts:
  "dicts (ngx_python_reset_value c name old s) =
     (if old = None \<and> dicts s (ns (ctxs s c)) name \<noteq> None
      then (dicts s)(ns (ctxs s c) := (dicts s (ns (ctxs s c)))(name := None))
      else dicts s)"
  by (simp add: ngx_python_reset_value_def PyDict_DelItemString_def log_python_error_def)

lemma log_python_error_fields [simp]:
  "dicts (log_python_error c s) = dicts s"
  "ctxs (log_python_error c s) = ctxs s"
  "faults (log_python_error c s) = faults s"
  "heap_top (log_python_error c s) = heap_top s"
  "ngx_python_ctx (log_python_error c s) = ngx_python_ctx s"
  by (simp_all add: log_python_error_def)

section \<open>Evaluating the examples\<close>

lemmas engine_defs =
  ngx_python_eval_start_def ngx_palloc_eq platform_call_eq upd_ctx_def created_ctx_def
  ngx_python_set_ctx_def ngx_python_get_ctx_def ngx_python_yield_def ngx_python_eval_finish_def
  ngx_python_eval_enter_def save_ruc_def log_swapcontext_failed_def
  ngx_python_eval_direct_return_def zero_ps_def zero_uc_def task_handler_return_def
  log_python_error_def ngx_python_yield_regain_def PyErr_SetString_def PyErr_SetFromErrno_def
  PyErr_Clear_def

section \<open>The step: what it leaves alone\<close>

lemma eval_start_frame:
  "ngx_python_eval_start c cd w s = Inl s1 \<or> ngx_python_eval_start c cd w s = Inr s1
   \<Longrightarrow> ps s1 = ps s \<and> ngx_python_ctx s1 = ngx_python_ctx s \<and> dicts s1 = dicts s
       \<and> error_log s1 = error_log s"
  by (auto simp: ngx_python_eval_start_def Let_def platform_call_eq ngx_palloc_eq split: if_splits)

lemma eval_enter_eq:
  "ngx_python_eval_enter c s =
     (ngx_python_ctx s, ps s, s\<lparr>ngx_python_ctx := Some c, ps := saved (ctxs s c)\<rparr>)"
  by (simp add: ngx_python_eval_enter_def ngx_python_set_ctx_def)

lemma eval_finish_frame:
  "ngx_python_eval_finish c live pctx s = (r, s') \<Longrightarrow> ps s' = live \<and> ngx_python_ctx s' = pctx"
  by (auto simp: ngx_python_eval_finish_def Let_def ngx_python_set_ctx_def split: if_splits)

text \<open>
  A step with a wake event that returns either left from the first-step block, or went
  through the switch and the final block.
\<close>

lemma eval_wake_cases:
  assumes "ngx_python_eval n c cd (Some w) s = Some (r, s')"
  obtains (failed) "ngx_python_eval_start c cd w s = Inl s'" "r = NULL"
  | (switched) s1 s4 where "ngx_python_eval_start c cd w s = Inr s1"
      "ngx_python_eval_finish c (ps s1) (ngx_python_ctx s1) s4 = (r, s')"
proof (cases n)
  case 0
  with assms show ?thesis by simp
next
  case (Suc m)
  show ?thesis
  proof (cases "ngx_python_eval_start c cd w s")
    case (Inl s1)
    with assms Suc have "s' = s1" "r = NULL" by simp_all
    with Inl failed show ?thesis by simp
  next
    case (Inr s1)
    with assms Suc obtain s4 where
      "ngx_python_eval_finish c (ps s1) (ngx_python_ctx s1) s4 = (r, s')"
      by (auto simp: eval_enter_eq platform_call_eq split: option.splits)
    with Inr switched show ?thesis by blast
  qed
qed

section \<open>What the engine never writes\<close>

lemma kept_refl [simp]: "kept s s"
  by (simp add: kept_def)

lemma kept_trans: "kept s t \<Longrightarrow> kept t u \<Longrightarrow> kept s u"
  by (simp add: kept_def)

lemma kept_yield:
  "ngx_python_yield k env s = Inl (rc, s') \<or> ngx_python_yield k env s = Inr s' \<Longrightarrow> kept s s'"
  by (auto simp: ngx_python_yield_def platform_call_eq Let_def kept_def upd_ctx_def
      split: option.splits if_splits)

lemma kept_yield_regain: "ngx_python_yield_regain c s = (rc, s') \<Longrightarrow> kept s s'"
  by (auto simp: ngx_python_yield_regain_def kept_def split: if_splits)

lemma kept_task_handler_return: "kept s (task_handler_return c r s)"
  by (simp add: task_handler_return_def log_python_error_def Let_def kept_def upd_ctx_def)

lemma kept_eval_start:
  "ngx_python_eval_start c cd w s = Inl s' \<or> ngx_python_eval_start c cd w s = Inr s' \<Longrightarrow> kept s s'"
  by (auto simp: ngx_python_eval_start_def platform_call_eq ngx_palloc_eq Let_def kept_def upd_ctx_def
      split: if_splits)

lemma kept_eval_finish: "ngx_python_eval_finish c live pctx s = (r, s') \<Longrightarrow> kept s s'"
  by (auto simp: ngx_python_eval_finish_def ngx_python_set_ctx_def Let_def kept_def upd_ctx_def
      split: if_splits)

lemma kept_eval_enter: "ngx_python_eval_enter c s = (pctx, live, s') \<Longrightarrow> kept s s'"
  by (auto simp: ngx_python_eval_enter_def ngx_python_set_ctx_def kept_def)

lemma kept_platform_call: "platform_call s = (ok, s') \<Longrightarrow> kept s s'"
  by (auto simp: platform_call_eq kept_def)

lemma kept_save_ruc: "kept s (save_ruc c s)"
  by (simp add: save_ruc_def kept_def upd_ctx_def)

lemma kept_log_swapcontext_failed: "kept s (log_swapcontext_failed c s)"
  by (simp add: log_swapcontext_failed_def kept_def)

lemma kept_direct_return: "ngx_python_eval_direct_return c pctx r0 s = (r, s') \<Longrightarrow> kept s s'"
  by (auto simp: ngx_python_eval_direct_return_def ngx_python_set_ctx_def log_python_error_def
      kept_def Let_def)

lemma kept_PyEval_step:
  assumes IH: "kept_upto n" and run: "PyEval_EvalCode (Suc n) b env s = Some (oc, s')"
  shows "kept s s'"
proof (cases b)
  case (Done r)
  with run show ?thesis by simp
next
  case (Suspend k)
  show ?thesis
  proof (cases "ngx_python_yield k env s")
    case (Inl p)
    obtain rc s1 where p: "p = (rc, s1)" by (cases p)
    from run Suspend Inl p have "PyEval_EvalCode n (k rc) env s1 = Some (oc, s')" by simp
    with IH have "kept s1 s'" unfolding kept_upto_def by blast
    moreover from Inl p have "kept s s1" using kept_yield by blast
    ultimately show ?thesis by (rule kept_trans [rotated])
  next
    case (Inr s1)
    with run Suspend have "s' = s1" by simp
    with Inr kept_yield show ?thesis by blast
  qed
next
  case (Interp f b')
  with run have "PyEval_EvalCode n b' env (s\<lparr>ps := f (ps s)\<rparr>) = Some (oc, s')" by simp
  with IH have "kept (s\<lparr>ps := f (ps s)\<rparr>) s'" unfolding kept_upto_def by blast
  then show ?thesis by (simp add: kept_def)
next
  case (Inspect k)
  with run IH show ?thesis by (auto simp: kept_upto_def)
next
  case (Load x k)
  with run IH show ?thesis by (auto simp: kept_upto_def)
next
  case (Store x v b')
  with run have
    "PyEval_EvalCode n b' env (s\<lparr>dicts := (dicts s)(env := (dicts s env)(x := v))\<rparr>) = Some (oc, s')"
    by simp
  with IH have "kept (s\<lparr>dicts := (dicts s)(env := (dicts s env)(x := v))\<rparr>) s'"
    unfolding kept_upto_def by blast
  then show ?thesis by (simp add: kept_def)
next
  case (Step c cd w k)
  with run obtain r s1 where e: "ngx_python_eval n c cd w s = Some (r, s1)"
    and rest: "PyEval_EvalCode n (k r) env s1 = Some (oc, s')"
    by (auto split: option.splits)
  from IH e have "kept s s1" unfolding kept_upto_def by blast
  moreover from IH rest have "kept s1 s'" unfolding kept_upto_def by blast
  ultimately show ?thesis by (rule kept_trans)
qed

lemma kept_task_handler_step:
  assumes IH: "kept_upto n" and run: "ngx_python_task_handler (Suc n) s = Some s'"
  shows "kept s s'"
proof -
  from run obtain c b where c: "ngx_python_get_ctx s = Some c" and b: "code (ctxs s c) = Some b"
    by (auto split: option.splits)
  from run c b obtain oc s1 where e: "PyEval_EvalCode n b (ns (ctxs s c)) s = Some (oc, s1)"
    by (auto split: option.splits)
  from IH e have k1: "kept s s1" unfolding kept_upto_def by blast
  show ?thesis
  proof (cases oc)
    case (Finished r)
    with run c b e have "s' = task_handler_return c r s1" by simp
    with k1 kept_task_handler_return [of s1 c r] show ?thesis by (auto intro: kept_trans)
  next
    case Switched
    with run c b e have "s' = s1" by simp
    with k1 show ?thesis by simp
  qed
qed

lemma kept_setcontext_step:
  assumes IH: "kept_upto n" and run: "setcontext_uc (Suc n) c s = Some s'"
  shows "kept s s'"
proof (cases "uc_mcontext (uc (ctxs s c))")
  case Unset
  with run show ?thesis by simp
next
  case In_eval
  with run show ?thesis by simp
next
  case Task_entry
  with run have "ngx_python_task_handler n s = Some s'" by simp
  with IH show ?thesis unfolding kept_upto_def by blast
next
  case (In_yield k env)
  obtain rc s1 where y: "ngx_python_yield_regain c s = (rc, s1)"
    by (cases "ngx_python_yield_regain c s")
  from run In_yield y obtain oc s2 where e: "PyEval_EvalCode n (k rc) env s1 = Some (oc, s2)"
    by (auto split: option.splits)
  from y have k0: "kept s s1" by (rule kept_yield_regain)
  from IH e have k1: "kept s1 s2" unfolding kept_upto_def by blast
  show ?thesis
  proof (cases oc)
    case (Finished r)
    with run In_yield y e have "s' = task_handler_return c r s2" by simp
    with k0 k1 kept_task_handler_return [of s2 c r] show ?thesis by (auto intro: kept_trans)
  next
    case Switched
    with run In_yield y e have "s' = s2" by simp
    with k0 k1 show ?thesis by (auto intro: kept_trans)
  qed
qed

lemma kept_eval_step:
  assumes IH: "kept_upto n" and run: "ngx_python_eval (Suc n) c cd w s = Some (r, s')"
  shows "kept s s'"
proof (cases w)
  case None
  obtain pctx s1 where sc: "ngx_python_set_ctx None s = (pctx, s1)"
    by (cases "ngx_python_set_ctx None s")
  then have k0: "kept s s1" by (auto simp: ngx_python_set_ctx_def kept_def)
  from run None sc obtain b where b: "cd = Some b"
    by (auto split: option.splits)
  from run None sc b obtain r0 s2 where
    e: "PyEval_EvalCode n b (ns (ctxs s1 c)) s1 = Some (Finished r0, s2)"
    and fin: "ngx_python_eval_direct_return c pctx r0 s2 = (r, s')"
    by (auto split: option.splits outcome.splits)
  from IH e have "kept s1 s2" unfolding kept_upto_def by blast
  with k0 kept_direct_return [OF fin] show ?thesis by (blast intro: kept_trans)
next
  case (Some wk)
  show ?thesis
  proof (cases "ngx_python_eval_start c cd wk s")
    case (Inl s1)
    with run Some have "s' = s1" by simp
    with Inl kept_eval_start show ?thesis by blast
  next
    case (Inr s1)
    then have k0: "kept s s1" using kept_eval_start by blast
    obtain pctx live s2 where en: "ngx_python_eval_enter c s1 = (pctx, live, s2)"
      by (cases "ngx_python_eval_enter c s1")
    obtain ok s3 where pc: "platform_call s2 = (ok, s3)"
      by (cases "platform_call s2")
    from run Some Inr en pc obtain s4 where
      sw: "(if ok then setcontext_uc n c (save_ruc c s3)
            else Some (log_swapcontext_failed c s3)) = Some s4"
      and fin: "ngx_python_eval_finish c live pctx s4 = (r, s')"
      by (auto split: option.splits)
    have "kept s3 s4"
    proof (cases ok)
      case True
      with sw have "setcontext_uc n c (save_ruc c s3) = Some s4" by simp
      with IH have "kept (save_ruc c s3) s4" unfolding kept_upto_def by blast
      with kept_save_ruc [of s3 c] show ?thesis by (blast intro: kept_trans)
    next
      case False
      with sw kept_log_swapcontext_failed [of s3 c] show ?thesis by auto
    qed
    with k0 kept_eval_enter [OF en] kept_platform_call [OF pc] kept_eval_finish [OF fin]
    show ?thesis by (blast intro: kept_trans)
  qed
qed

lemma kept_upto_all: "kept_upto n"
proof (induction n)
  case 0
  show ?case by (simp add: kept_upto_def)
next
  case (Suc n)
  then show ?case
    unfolding kept_upto_def [of "Suc n"]
    using kept_PyEval_step kept_task_handler_step kept_setcontext_step kept_eval_step
    by blast
qed

lemma kept_PyEval: "PyEval_EvalCode n b env s = Some (oc, s') \<Longrightarrow> kept s s'"
  using kept_upto_all [of n] unfolding kept_upto_def by blast

lemma kept_setcontext: "setcontext_uc n c s = Some s' \<Longrightarrow> kept s s'"
  using kept_upto_all [of n] unfolding kept_upto_def by blast

lemma kept_eval: "ngx_python_eval n c cd w s = Some (r, s') \<Longrightarrow> kept s s'"
  using kept_upto_all [of n] unfolding kept_upto_def by blast

section \<open>The suspension point\<close>

lemma yield_returns_error: "ngx_python_yield k env s = Inl (rc, s') \<Longrightarrow> rc = NGX_ERROR"
  by (auto simp: ngx_python_yield_def platform_call_eq Let_def split: option.splits if_splits)

lemma pending_state_eq:
  "pending_state =
     idle_state\<lparr>ctxs := (ctxs idle_state)(0 := (created_ctx 0 0 0 32768)
        \<lparr>code := Some sleeping_body, result := NGX_PYTHON_AGAIN, wake := Some 7, stack := Some 4096,
         uc := \<lparr>uc_link = Some (Ruc 0), ss_sp = Some 4096, ss_size = 32768,
                uc_mcontext = In_yield (\<lambda>rc. if rc = NGX_OK then Done (Some (PyObj 1)) else Done None) 0\<rparr>,
         ruc := zero_uc\<lparr>uc_mcontext := In_eval\<rparr>\<rparr>),
       heap_top := 36864\<rparr>"
  by (simp add: pending_state_def idle_state_def sleeping_body_def engine_defs)

section \<open>The first-step block and the final block\<close>

lemma eval_start_first:
  assumes "result (ctxs s c) = NULL" and "ngx_python_eval_start c cd w s = Inr s1"
  shows "stack (ctxs s1 c) \<noteq> None \<and>
         (stack (ctxs s c) \<noteq> None \<longrightarrow> stack (ctxs s1 c) = stack (ctxs s c)) \<and>
         uc (ctxs s1 c) = \<lparr>uc_link = Some (Ruc c), ss_sp = stack (ctxs s1 c),
                           ss_size = stack_size (ctxs s c), uc_mcontext = Task_entry\<rparr> \<and>
         code (ctxs s1 c) = cd \<and> wake (ctxs s1 c) = Some w \<and>
         result (ctxs s1 c) = NGX_PYTHON_AGAIN"
  using assms
  by (auto simp: ngx_python_eval_start_def Let_def platform_call_eq ngx_palloc_eq upd_ctx_def
      split: if_splits)

lemma eval_start_failed:
  assumes "ngx_python_eval_start c cd w s = Inl s1"
  shows "result (ctxs s c) = NULL \<and> result (ctxs s1 c) = NULL \<and> faults s \<noteq> [] \<and>
         code (ctxs s1 c) = code (ctxs s c) \<and> wake (ctxs s1 c) = wake (ctxs s c) \<and>
         uc (ctxs s1 c) = uc (ctxs s c)"
  using assms
  by (auto simp: ngx_python_eval_start_def Let_def platform_call_eq ngx_palloc_eq upd_ctx_def
      split: if_splits)

lemma eval_start_no_faults:
  "faults s = [] \<Longrightarrow> \<exists>s1. ngx_python_eval_start c cd w s = Inr s1"
  by (auto simp: ngx_python_eval_start_def Let_def platform_call_eq ngx_palloc_eq upd_ctx_def)

lemma eval_start_started:
  "result (ctxs s c) \<noteq> NULL \<Longrightarrow> ngx_python_eval_start c cd w s = Inr s"
  by (simp add: ngx_python_eval_start_def)


lemma eval_finish_result:
  assumes "ngx_python_eval_finish c live pctx s = (r, s')"
  shows "r = result (ctxs s c) \<and>
         (r = NGX_PYTHON_AGAIN \<longrightarrow> result (ctxs s' c) = NGX_PYTHON_AGAIN) \<and>
         (r \<noteq> NGX_PYTHON_AGAIN \<longrightarrow>
            code (ctxs s' c) = None \<and> wake (ctxs s' c) = None \<and> result (ctxs s' c) = NULL)"
  using assms
  by (auto simp: ngx_python_eval_finish_def ngx_python_set_ctx_def Let_def upd_ctx_def
      split: if_splits)

section \<open>Bodies run with and without an active task\<close>

inductive_cases stepless_SuspendE: "stepless (Suspend k)"

inductive_cases stepless_InterpE: "stepless (Interp f b)"

inductive_cases stepless_InspectE: "stepless (Inspect k)"

inductive_cases stepless_LoadE: "stepless (Load x k)"

inductive_cases stepless_StoreE: "stepless (Store x v b)"

inductive_cases stepless_StepE: "stepless (Step c cd w k)"

inductive_cases plain_SuspendE: "plain (Suspend k)"

inductive_cases plain_InterpE: "plain (Interp f b)"

inductive_cases plain_InspectE: "plain (Inspect k)"

inductive_cases plain_LoadE: "plain (Load x k)"

inductive_cases plain_StoreE: "plain (Store x v b)"

inductive_cases plain_StepE: "plain (Step c cd w k)"

lemma direct_return_eq:
  "ngx_python_eval_direct_return c pctx r s =
     (ptr_of r, (if r = None then log_python_error c s else s)\<lparr>ngx_python_ctx := pctx\<rparr>)"
  by (simp add: ngx_python_eval_direct_return_def ngx_python_set_ctx_def Let_def)

text \<open>An evaluation without a wake event that returns, taken apart.\<close>

lemma eval_direct_cases:
  assumes "ngx_python_eval n c cd None s = Some (r, s')"
  obtains m b r0 s2 where "n = Suc m" "cd = Some b"
    "PyEval_EvalCode m b (ns (ctxs s c)) (s\<lparr>ngx_python_ctx := None\<rparr>) = Some (Finished r0, s2)"
    "r = ptr_of r0"
    "s' = (if r0 = None then log_python_error c s2 else s2)\<lparr>ngx_python_ctx := ngx_python_ctx s\<rparr>"
proof (cases n)
  case 0
  with assms show ?thesis by simp
next
  case (Suc m)
  with assms obtain b where b: "cd = Some b"
    by (auto simp: ngx_python_set_ctx_def split: option.splits)
  from assms Suc b obtain r0 s2 where
    "PyEval_EvalCode m b (ns (ctxs s c)) (s\<lparr>ngx_python_ctx := None\<rparr>) = Some (Finished r0, s2)"
    "ngx_python_eval_direct_return c (ngx_python_ctx s) r0 s2 = (r, s')"
    by (auto simp: ngx_python_set_ctx_def split: option.splits outcome.splits)
  with Suc b that show ?thesis by (simp add: direct_return_eq)
qed

lemma eval_active:
  assumes "ngx_python_eval n c cd w s = Some (r, s')"
  shows "ngx_python_ctx s' = ngx_python_ctx s"
proof (cases w)
  case (Some wk)
  with assms have e: "ngx_python_eval n c cd (Some wk) s = Some (r, s')" by simp
  then show ?thesis
  proof (cases rule: eval_wake_cases)
    case failed
    with eval_start_frame [of c cd wk s s'] show ?thesis by simp
  next
    case (switched s1 s4)
    with eval_start_frame [of c cd wk s s1] eval_finish_frame [of c "ps s1" "ngx_python_ctx s1" s4 r s']
    show ?thesis by simp
  qed
next
  case None
  with assms have "ngx_python_eval n c cd None s = Some (r, s')" by simp
  then show ?thesis by (cases rule: eval_direct_cases) simp
qed

lemma yield_active:
  "ngx_python_yield k env s = Inl (rc, s') \<or> ngx_python_yield k env s = Inr s'
   \<Longrightarrow> ngx_python_ctx s' = ngx_python_ctx s"
  by (auto simp: ngx_python_yield_def platform_call_eq Let_def split: option.splits if_splits)

lemma yield_outside: "ngx_python_ctx s = None \<Longrightarrow> ngx_python_yield k env s \<noteq> Inr s'"
  by (simp add: ngx_python_yield_def ngx_python_get_ctx_def)

text \<open>
  A body leaves the active-task pointer as it found it, and with no active task it never
  switches away.
\<close>

lemma PyEval_active:
  "PyEval_EvalCode n b env s = Some (oc, s') \<Longrightarrow>
   ngx_python_ctx s' = ngx_python_ctx s \<and> (ngx_python_ctx s = None \<longrightarrow> oc \<noteq> Switched)"
proof (induction n arbitrary: b s)
  case 0
  then show ?case by simp
next
  case (Suc n)
  note run = Suc.prems
  show ?case
  proof (cases b)
    case (Done r)
    with run show ?thesis by auto
  next
    case (Suspend k)
    show ?thesis
    proof (cases "ngx_python_yield k env s")
      case (Inl p)
      obtain rc s1 where p: "p = (rc, s1)" by (cases p)
      from run Suspend Inl p have "PyEval_EvalCode n (k rc) env s1 = Some (oc, s')" by simp
      from Suc.IH [OF this] yield_active [of k env s rc s1] Inl p show ?thesis by simp
    next
      case (Inr s1)
      with run Suspend have "s' = s1" "oc = Switched" by simp_all
      with Inr yield_active [of k env s _ s1] yield_outside [of s k env s1] show ?thesis by auto
    qed
  next
    case (Interp f b')
    with run have "PyEval_EvalCode n b' env (s\<lparr>ps := f (ps s)\<rparr>) = Some (oc, s')" by simp
    from Suc.IH [OF this] show ?thesis by simp
  next
    case (Inspect k)
    with run have "PyEval_EvalCode n (k (ps s)) env s = Some (oc, s')" by simp
    from Suc.IH [OF this] show ?thesis .
  next
    case (Load x k)
    with run have "PyEval_EvalCode n (k (dicts s env x)) env s = Some (oc, s')" by simp
    from Suc.IH [OF this] show ?thesis .
  next
    case (Store x v b')
    with run have
      "PyEval_EvalCode n b' env (s\<lparr>dicts := (dicts s)(env := (dicts s env)(x := v))\<rparr>) = Some (oc, s')"
      by simp
    from Suc.IH [OF this] show ?thesis by simp
  next
    case (Step c cd w k)
    with run obtain r s1 where e: "ngx_python_eval n c cd w s = Some (r, s1)"
      and rest: "PyEval_EvalCode n (k r) env s1 = Some (oc, s')"
      by (auto split: option.splits)
    from Suc.IH [OF rest] eval_active [OF e] show ?thesis by simp
  qed
qed

text \<open>
  A body with no nested step, run with no active task, touches no task record, makes no
  platform call, allocates nothing and logs nothing.
\<close>

lemma PyEval_stepless_outside:
  "stepless b \<Longrightarrow> ngx_python_ctx s = None \<Longrightarrow> PyEval_EvalCode n b env s = Some (oc, s') \<Longrightarrow>
   ctxs s' = ctxs s \<and> faults s' = faults s \<and> heap_top s' = heap_top s \<and>
   error_log s' = error_log s"
proof (induction n arbitrary: b s)
  case 0
  then show ?case by simp
next
  case (Suc n)
  note sl = Suc.prems(1) and out = Suc.prems(2) and run = Suc.prems(3)
  show ?case
  proof (cases b)
    case (Done r)
    with run show ?thesis by auto
  next
    case (Suspend k)
    with sl have sk: "stepless (k NGX_ERROR)" by (auto elim: stepless_SuspendE)
    from out have y: "ngx_python_yield k env s =
        Inl (NGX_ERROR,
             s\<lparr>ps := PyErr_SetString PyExc_RuntimeError ''blocking calls are not allowed'' (ps s)\<rparr>)"
      by (simp add: ngx_python_yield_def ngx_python_get_ctx_def)
    with run Suspend have
      "PyEval_EvalCode n (k NGX_ERROR) env
         (s\<lparr>ps := PyErr_SetString PyExc_RuntimeError ''blocking calls are not allowed'' (ps s)\<rparr>) =
       Some (oc, s')" by simp
    from Suc.IH [OF sk _ this] out show ?thesis by simp
  next
    case (Interp f b')
    with sl have sb: "stepless b'" by (auto elim: stepless_InterpE)
    from run Interp have "PyEval_EvalCode n b' env (s\<lparr>ps := f (ps s)\<rparr>) = Some (oc, s')" by simp
    from Suc.IH [OF sb _ this] out show ?thesis by simp
  next
    case (Inspect k)
    with sl have sk: "stepless (k (ps s))" by (auto elim: stepless_InspectE)
    from run Inspect have "PyEval_EvalCode n (k (ps s)) env s = Some (oc, s')" by simp
    from Suc.IH [OF sk out this] show ?thesis .
  next
    case (Load x k)
    with sl have sk: "stepless (k (dicts s env x))" by (auto elim: stepless_LoadE)
    from run Load have "PyEval_EvalCode n (k (dicts s env x)) env s = Some (oc, s')" by simp
    from Suc.IH [OF sk out this] show ?thesis .
  next
    case (Store x v b')
    with sl have sb: "stepless b'" by (auto elim: stepless_StoreE)
    from run Store have
      "PyEval_EvalCode n b' env (s\<lparr>dicts := (dicts s)(env := (dicts s env)(x := v))\<rparr>) = Some (oc, s')"
      by simp
    from Suc.IH [OF sb _ this] out show ?thesis by simp
  next
    case (Step c cd w k)
    with sl show ?thesis by (auto elim: stepless_StepE)
  qed
qed

text \<open>
  A plain body (no blocking call, no nested step) depends on the thread state and the
  namespaces only, and changes nothing else.
\<close>

lemma PyEval_plain:
  "plain b \<Longrightarrow> PyEval_EvalCode n b env s = Some (oc, s') \<Longrightarrow> ps t = ps s \<Longrightarrow> dicts t = dicts s \<Longrightarrow>
   (\<exists>r0. oc = Finished r0) \<and>
   PyEval_EvalCode n b env t = Some (oc, t\<lparr>ps := ps s', dicts := dicts s'\<rparr>)"
proof (induction n arbitrary: b s t)
  case 0
  then show ?case by simp
next
  case (Suc n)
  note pl = Suc.prems(1) and run = Suc.prems(2) and p = Suc.prems(3) and d = Suc.prems(4)
  show ?case
  proof (cases b)
    case (Done r)
    with run p d show ?thesis by auto
  next
    case (Suspend k)
    with pl show ?thesis by (auto elim: plain_SuspendE)
  next
    case (Interp f b')
    with pl have sb: "plain b'" by (auto elim: plain_InterpE)
    from run Interp have "PyEval_EvalCode n b' env (s\<lparr>ps := f (ps s)\<rparr>) = Some (oc, s')" by simp
    from Suc.IH [OF sb this, of "t\<lparr>ps := f (ps t)\<rparr>"] p d Interp show ?thesis by simp
  next
    case (Inspect k)
    with pl have sk: "plain (k (ps s))" by (auto elim: plain_InspectE)
    from run Inspect have "PyEval_EvalCode n (k (ps s)) env s = Some (oc, s')" by simp
    from Suc.IH [OF sk this, of t] p d Inspect show ?thesis by simp
  next
    case (Load x k)
    with pl have sk: "plain (k (dicts s env x))" by (auto elim: plain_LoadE)
    from run Load have "PyEval_EvalCode n (k (dicts s env x)) env s = Some (oc, s')" by simp
    from Suc.IH [OF sk this, of t] p d Load show ?thesis by simp
  next
    case (Store x v b')
    with pl have sb: "plain b'" by (auto elim: plain_StoreE)
    from run Store have
      "PyEval_EvalCode n b' env (s\<lparr>dicts := (dicts s)(env := (dicts s env)(x := v))\<rparr>) = Some (oc, s')"
      by simp
    from Suc.IH [OF sb this, of "t\<lparr>dicts := (dicts t)(env := (dicts t env)(x := v))\<rparr>"] p d Store
    show ?thesis by simp
  next
    case (Step c cd w k)
    with pl show ?thesis by (auto elim: plain_StepE)
  qed
qed

lemma faults_nil_update [simp]: "faults s = [] \<Longrightarrow> s\<lparr>faults := []\<rparr> = s"
  by (cases s) simp

lemma eval_start_fresh:
  assumes "result (ctxs s c) = NULL" and "faults s = []"
  shows "ngx_python_eval_start c cd w s =
     Inr (upd_ctx c
           (\<lambda>x. x\<lparr>uc := \<lparr>uc_link = Some (Ruc c), ss_sp = stack x, ss_size = stack_size x,
                        uc_mcontext = Task_entry\<rparr>,
                  code := cd, wake := Some w, result := NGX_PYTHON_AGAIN\<rparr>)
           (if stack (ctxs s c) = None
            then upd_ctx c (\<lambda>x. x\<lparr>stack := Some (heap_top s)\<rparr>)
                   (s\<lparr>heap_top := heap_top s + stack_size (ctxs s c)\<rparr>)
            else s))"
  using assms
  by (simp add: ngx_python_eval_start_def ngx_palloc_eq platform_call_eq Let_def)

text \<open>
  The two modes on a plain body: where the evaluation without a wake event returns \<open>r\<close>,
  the first step of a fresh task on the same body, from the same interpreter state,
  completes with \<open>r\<close> too, and leaves the same log and namespaces.
\<close>

lemma plain_body_both_modes:
  assumes direct: "ngx_python_eval (Suc m) c (Some b) None s = Some (r, s')"
    and pl: "plain b"
    and snap: "saved (ctxs s c) = ps s"
    and fresh: "result (ctxs s c) = NULL"
    and nf: "faults s = []"
  shows "\<exists>s2. ngx_python_eval (Suc (Suc (Suc m))) c (Some b) (Some w) s = Some (r, s2) \<and>
              error_log s2 = error_log s' \<and> dicts s2 = dicts s' \<and>
              saved (ctxs s2 c) = ps s' \<and> ps s2 = ps s"
proof -
  from direct obtain r0 s1 where
    run: "PyEval_EvalCode m b (ns (ctxs s c)) (s\<lparr>ngx_python_ctx := None\<rparr>) = Some (Finished r0, s1)"
    and r: "r = ptr_of r0"
    and s': "s' = (if r0 = None then log_python_error c s1 else s1)\<lparr>ngx_python_ctx := ngx_python_ctx s\<rparr>"
    by (cases rule: eval_direct_cases) auto
  from PyEval_plain [OF pl run, of "s\<lparr>ngx_python_ctx := None\<rparr>"]
  have s1: "s1 = s\<lparr>ngx_python_ctx := None, ps := ps s1, dicts := dicts s1\<rparr>"
    using run by simp
  define t0 where "t0 = (if stack (ctxs s c) = None
            then upd_ctx c (\<lambda>x. x\<lparr>stack := Some (heap_top s)\<rparr>)
                   (s\<lparr>heap_top := heap_top s + stack_size (ctxs s c)\<rparr>)
            else s)"
  define t1 where "t1 = save_ruc c
     ((upd_ctx c
           (\<lambda>x. x\<lparr>uc := \<lparr>uc_link = Some (Ruc c), ss_sp = stack x, ss_size = stack_size x,
                        uc_mcontext = Task_entry\<rparr>,
                  code := Some b, wake := Some w, result := NGX_PYTHON_AGAIN\<rparr>) t0)
        \<lparr>ngx_python_ctx := Some c, ps := ps s\<rparr>)"
  have t0: "ps t0 = ps s" "dicts t0 = dicts s" "faults t0 = []" "error_log t0 = error_log s"
    "ngx_python_ctx t0 = ngx_python_ctx s" "saved (ctxs t0 c) = ps s" "ns (ctxs t0 c) = ns (ctxs s c)"
    "log (ctxs t0 c) = log (ctxs s c)"
    using nf snap by (simp_all add: t0_def upd_ctx_def)
  have t1: "ps t1 = ps s" "dicts t1 = dicts s" "error_log t1 = error_log s"
    "ngx_python_ctx t1 = Some c" "code (ctxs t1 c) = Some b" "ns (ctxs t1 c) = ns (ctxs s c)"
    "uc_mcontext (uc (ctxs t1 c)) = Task_entry" "log (ctxs t1 c) = log (ctxs s c)"
    using t0 by (simp_all add: t1_def save_ruc_def upd_ctx_def)
  from PyEval_plain [OF pl run, of t1] t1
  have run1: "PyEval_EvalCode m b (ns (ctxs s c)) t1 =
      Some (Finished r0, t1\<lparr>ps := ps s1, dicts := dicts s1\<rparr>)"
    by simp
  have th: "ngx_python_task_handler (Suc m) t1 =
      Some (task_handler_return c r0 (t1\<lparr>ps := ps s1, dicts := dicts s1\<rparr>))"
    using t1 run1 by (simp add: ngx_python_get_ctx_def)
  have sc: "setcontext_uc (Suc (Suc m)) c t1 =
      Some (task_handler_return c r0 (t1\<lparr>ps := ps s1, dicts := dicts s1\<rparr>))"
    using t1 th by simp
  have st: "ngx_python_eval_start c (Some b) w s =
     Inr (upd_ctx c
           (\<lambda>x. x\<lparr>uc := \<lparr>uc_link = Some (Ruc c), ss_sp = stack x, ss_size = stack_size x,
                        uc_mcontext = Task_entry\<rparr>,
                  code := Some b, wake := Some w, result := NGX_PYTHON_AGAIN\<rparr>) t0)"
    unfolding t0_def using fresh nf by (rule eval_start_fresh)
  have ev: "ngx_python_eval (Suc (Suc (Suc m))) c (Some b) (Some w) s =
      Some (ngx_python_eval_finish c (ps s) (ngx_python_ctx s)
              (task_handler_return c r0 (t1\<lparr>ps := ps s1, dicts := dicts s1\<rparr>)))"
    using st sc t0
    by (simp add: eval_enter_eq platform_call_eq t1_def upd_ctx_def save_ruc_def del: setcontext_uc.simps)
  let ?fin = "ngx_python_eval_finish c (ps s) (ngx_python_ctx s)
              (task_handler_return c r0 (t1\<lparr>ps := ps s1, dicts := dicts s1\<rparr>))"
  have f1: "fst ?fin = r"
    by (simp add: r ngx_python_eval_finish_def task_handler_return_def log_python_error_def
        ngx_python_set_ctx_def upd_ctx_def Let_def)
  have s1f: "error_log s1 = error_log s" "ctxs s1 = ctxs s"
    by (subst s1, simp)+
  have f2: "error_log (snd ?fin) = error_log s'"
    using t1 s1f
    by (simp add: s' ngx_python_eval_finish_def task_handler_return_def log_python_error_def
        ngx_python_set_ctx_def upd_ctx_def Let_def)
  have f3: "dicts (snd ?fin) = dicts s'"
    by (simp add: s' ngx_python_eval_finish_def task_handler_return_def log_python_error_def
        ngx_python_set_ctx_def upd_ctx_def Let_def)
  have f4: "saved (ctxs (snd ?fin) c) = ps s'"
    by (simp add: s' ngx_python_eval_finish_def task_handler_return_def log_python_error_def
        ngx_python_set_ctx_def upd_ctx_def Let_def)
  have f5: "ps (snd ?fin) = ps s"
    by (simp add: ngx_python_eval_finish_def ngx_python_set_ctx_def upd_ctx_def Let_def)
  have "ngx_python_eval (Suc (Suc (Suc m))) c (Some b) (Some w) s = Some (r, snd ?fin)"
    using ev f1 by (metis prod.collapse)
  with f2 f3 f4 f5 show ?thesis by blast
qed

lemma finish_after_return:
  "fst (ngx_python_eval_finish c live pctx (task_handler_return c r0 s1)) = ptr_of r0 \<and>
   error_log (snd (ngx_python_eval_finish c live pctx (task_handler_return c r0 s1))) =
     error_log ((if r0 = None then log_python_error c s1 else s1)\<lparr>ngx_python_ctx := pctx'\<rparr>)"
  by (simp add: ngx_python_eval_finish_def task_handler_return_def log_python_error_def
      ngx_python_set_ctx_def upd_ctx_def Let_def)

lemma plain_raising_body: "plain raising_body"
  unfolding raising_body_def by (intro plain.intros)

lemma stepless_raising_body: "stepless raising_body"
  unfolding raising_body_def by (intro stepless.intros)

section \<open>The result of a step\<close>

lemma eval_wake_result:
  assumes "ngx_python_eval n c cd (Some w) s = Some (r, s')"
  shows "(r = NGX_PYTHON_AGAIN \<longrightarrow> result (ctxs s' c) = NGX_PYTHON_AGAIN) \<and>
         (r \<noteq> NGX_PYTHON_AGAIN \<longrightarrow> result (ctxs s' c) = NULL)"
  using assms
proof (cases rule: eval_wake_cases)
  case failed
  with eval_start_failed [of c cd w s s'] show ?thesis by simp
next
  case (switched s1 s4)
  with eval_finish_result show ?thesis by blast
qed

lemma ptr_of_not_again [simp]: "ptr_of r \<noteq> NGX_PYTHON_AGAIN"
  by (cases r) simp_all

section \<open>How a step runs the body\<close>

text \<open>
  A step that gets past the first-step block and whose switch succeeds is the run of the
  task's context, followed by the final block.
\<close>

lemma eval_switch:
  assumes "ngx_python_eval_start c cd w s = Inr s1"
    and "ngx_python_eval_enter c s1 = (pctx, live, s2)"
    and "platform_call s2 = (True, s3)"
  shows "ngx_python_eval (Suc n) c cd (Some w) s =
           (case setcontext_uc n c (save_ruc c s3) of
              None \<Rightarrow> None
            | Some s4 \<Rightarrow> Some (ngx_python_eval_finish c live pctx s4))"
  using assms by (simp del: setcontext_uc.simps)

lemma entered_fields:
  assumes "ngx_python_eval_enter c s1 = (pctx, live, s2)" and "platform_call s2 = (ok, s3)"
  shows "ngx_python_ctx (save_ruc c s3) = Some c"
    and "ps (save_ruc c s3) = saved (ctxs s1 c)"
    and "dicts (save_ruc c s3) = dicts s1"
    and "faults (save_ruc c s3) = tl (faults s1)"
    and "error_log (save_ruc c s3) = error_log s1"
    and "code (ctxs (save_ruc c s3) c) = code (ctxs s1 c)"
    and "ns (ctxs (save_ruc c s3) c) = ns (ctxs s1 c)"
    and "wake (ctxs (save_ruc c s3) c) = wake (ctxs s1 c)"
    and "result (ctxs (save_ruc c s3) c) = result (ctxs s1 c)"
    and "terminate (ctxs (save_ruc c s3) c) = terminate (ctxs s1 c)"
    and "uc (ctxs (save_ruc c s3) c) = uc (ctxs s1 c)"
    and "pctx = ngx_python_ctx s1" and "live = ps s1"
  using assms by (auto simp: eval_enter_eq platform_call_eq save_ruc_def upd_ctx_def)

lemma setcontext_entry:
  assumes "ngx_python_ctx s = Some c" and "uc_mcontext (uc (ctxs s c)) = Task_entry"
    and "code (ctxs s c) = Some b"
  shows "setcontext_uc (Suc (Suc n)) c s =
     (case PyEval_EvalCode n b (ns (ctxs s c)) s of
        None \<Rightarrow> None
      | Some (Finished v, s5) \<Rightarrow> Some (task_handler_return c v s5)
      | Some (Switched, s5) \<Rightarrow> Some s5)"
  using assms by (simp add: ngx_python_get_ctx_def)

lemma setcontext_resume:
  assumes "uc_mcontext (uc (ctxs s c)) = In_yield k env"
    and "ngx_python_yield_regain c s = (rc, s1)"
  shows "setcontext_uc (Suc n) c s =
     (case PyEval_EvalCode n (k rc) env s1 of
        None \<Rightarrow> None
      | Some (Finished v, s5) \<Rightarrow> Some (task_handler_return c v s5)
      | Some (Switched, s5) \<Rightarrow> Some s5)"
  using assms by simp

lemma first_step_runs_body:
  assumes fresh: "result (ctxs s c) = NULL"
    and st: "ngx_python_eval_start c (Some b) w s = Inr s1"
    and en: "ngx_python_eval_enter c s1 = (pctx, live, s2)"
    and pc: "platform_call s2 = (True, s3)"
  shows "ngx_python_eval (Suc (Suc (Suc n))) c (Some b) (Some w) s =
     (case PyEval_EvalCode n b (ns (ctxs s c)) (save_ruc c s3) of
        None \<Rightarrow> None
      | Some (Finished v, s5) \<Rightarrow>
          Some (ngx_python_eval_finish c live pctx (task_handler_return c v s5))
      | Some (Switched, s5) \<Rightarrow> Some (ngx_python_eval_finish c live pctx s5))"
proof -
  from eval_start_first [OF fresh st]
  have s1: "code (ctxs s1 c) = Some b" "uc_mcontext (uc (ctxs s1 c)) = Task_entry"
    by simp_all
  from st have "kept s s1" using kept_eval_start by blast
  then have nsq: "ns (ctxs s1 c) = ns (ctxs s c)" by (simp add: kept_def)
  note ef = entered_fields [OF en pc]
  have sc: "setcontext_uc (Suc (Suc n)) c (save_ruc c s3) =
     (case PyEval_EvalCode n b (ns (ctxs s c)) (save_ruc c s3) of
        None \<Rightarrow> None
      | Some (Finished v, s5) \<Rightarrow> Some (task_handler_return c v s5)
      | Some (Switched, s5) \<Rightarrow> Some s5)"
    using setcontext_entry [of "save_ruc c s3" c b n] ef s1 nsq by simp
  show ?thesis
    unfolding eval_switch [OF st en pc] sc
    by (simp split: option.splits outcome.splits prod.splits)
qed

lemma resumed_step_runs_rest:
  assumes pend: "result (ctxs s c) = NGX_PYTHON_AGAIN"
    and ucm: "uc_mcontext (uc (ctxs s c)) = In_yield k env"
    and en: "ngx_python_eval_enter c s = (pctx, live, s2)"
    and pc: "platform_call s2 = (True, s3)"
    and yr: "ngx_python_yield_regain c (save_ruc c s3) = (rc, s4)"
  shows "ngx_python_eval (Suc (Suc n)) c cd (Some w) s =
     (case PyEval_EvalCode n (k rc) env s4 of
        None \<Rightarrow> None
      | Some (Finished v, s5) \<Rightarrow>
          Some (ngx_python_eval_finish c live pctx (task_handler_return c v s5))
      | Some (Switched, s5) \<Rightarrow> Some (ngx_python_eval_finish c live pctx s5))"
proof -
  from pend have st: "ngx_python_eval_start c cd w s = Inr s" by (simp add: eval_start_started)
  note ef = entered_fields [OF en pc]
  from ucm ef have "uc_mcontext (uc (ctxs (save_ruc c s3) c)) = In_yield k env" by simp
  note sc = setcontext_resume [OF this yr, of n]
  show ?thesis
    unfolding eval_switch [OF st en pc] sc
    by (simp split: option.splits outcome.splits prod.splits)
qed

lemma finish_completed:
  "\<exists>t. ngx_python_eval_finish c live pctx (task_handler_return c v s5) = (ptr_of v, t) \<and>
       result (ctxs t c) = NULL \<and> code (ctxs t c) = None \<and> wake (ctxs t c) = None"
  by (cases v)
    (simp_all add: ngx_python_eval_finish_def task_handler_return_def log_python_error_def
      ngx_python_set_ctx_def upd_ctx_def Let_def)

lemma finish_suspended:
  assumes "result (ctxs s5 c) = NGX_PYTHON_AGAIN"
  shows "\<exists>t. ngx_python_eval_finish c live pctx s5 = (NGX_PYTHON_AGAIN, t) \<and>
       result (ctxs t c) = NGX_PYTHON_AGAIN \<and> code (ctxs t c) = code (ctxs s5 c) \<and>
       wake (ctxs t c) = wake (ctxs s5 c) \<and> uc (ctxs t c) = uc (ctxs s5 c) \<and>
       saved (ctxs t c) = ps s5 \<and> dicts t = dicts s5 \<and> faults t = faults s5"
  using assms
  by (simp add: ngx_python_eval_finish_def ngx_python_set_ctx_def upd_ctx_def Let_def)

lemma yield_slot:
  "ngx_python_yield k env s = Inl (rc, s') \<or> ngx_python_yield k env s = Inr s' \<Longrightarrow>
   result (ctxs s' c) = result (ctxs s c) \<and> code (ctxs s' c) = code (ctxs s c) \<and>
   wake (ctxs s' c) = wake (ctxs s c)"
  by (auto simp: ngx_python_yield_def platform_call_eq Let_def upd_ctx_def
      split: option.splits if_splits)

lemma stepless_slot:
  "stepless b \<Longrightarrow> PyEval_EvalCode n b env s = Some (oc, s') \<Longrightarrow>
   result (ctxs s' c) = result (ctxs s c) \<and> code (ctxs s' c) = code (ctxs s c) \<and>
   wake (ctxs s' c) = wake (ctxs s c)"
proof (induction n arbitrary: b s)
  case 0
  then show ?case by simp
next
  case (Suc n)
  note sl = Suc.prems(1) and run = Suc.prems(2)
  show ?case
  proof (cases b)
    case (Done r)
    with run show ?thesis by auto
  next
    case (Suspend k)
    show ?thesis
    proof (cases "ngx_python_yield k env s")
      case (Inl p)
      obtain rc s1 where p: "p = (rc, s1)" by (cases p)
      from sl Suspend have sk: "stepless (k rc)" by (auto elim: stepless_SuspendE)
      from run Suspend Inl p have "PyEval_EvalCode n (k rc) env s1 = Some (oc, s')" by simp
      from Suc.IH [OF sk this] yield_slot [of k env s rc s1 c] Inl p show ?thesis by simp
    next
      case (Inr s1)
      with run Suspend have "s' = s1" by simp
      with Inr yield_slot [of k env s _ s1 c] show ?thesis by simp
    qed
  next
    case (Interp f b')
    with sl have sb: "stepless b'" by (auto elim: stepless_InterpE)
    from run Interp have "PyEval_EvalCode n b' env (s\<lparr>ps := f (ps s)\<rparr>) = Some (oc, s')" by simp
    from Suc.IH [OF sb this] show ?thesis by simp
  next
    case (Inspect k)
    with sl have sk: "stepless (k (ps s))" by (auto elim: stepless_InspectE)
    from run Inspect have "PyEval_EvalCode n (k (ps s)) env s = Some (oc, s')" by simp
    from Suc.IH [OF sk this] show ?thesis .
  next
    case (Load x k)
    with sl have sk: "stepless (k (dicts s env x))" by (auto elim: stepless_LoadE)
    from run Load have "PyEval_EvalCode n (k (dicts s env x)) env s = Some (oc, s')" by simp
    from Suc.IH [OF sk this] show ?thesis .
  next
    case (Store x v b')
    with sl have sb: "stepless b'" by (auto elim: stepless_StoreE)
    from run Store have
      "PyEval_EvalCode n b' env (s\<lparr>dicts := (dicts s)(env := (dicts s env)(x := v))\<rparr>) = Some (oc, s')"
      by simp
    from Suc.IH [OF sb this] show ?thesis by simp
  next
    case (Step c' cd w k)
    with sl show ?thesis by (auto elim: stepless_StepE)
  qed
qed

text \<open>The two outcomes of a first step and of a step on a suspended task.\<close>

lemma first_step_completes:
  assumes fresh: "result (ctxs s c) = NULL"
    and st: "ngx_python_eval_start c (Some b) w s = Inr s1"
    and en: "ngx_python_eval_enter c s1 = (pctx, live, s2)"
    and pc: "platform_call s2 = (True, s3)"
    and run: "PyEval_EvalCode n b (ns (ctxs s c)) (save_ruc c s3) = Some (Finished v, s5)"
  shows "\<exists>t. ngx_python_eval (Suc (Suc (Suc n))) c (Some b) (Some w) s = Some (ptr_of v, t) \<and>
             result (ctxs t c) = NULL \<and> code (ctxs t c) = None \<and> wake (ctxs t c) = None"
  using first_step_runs_body [OF fresh st en pc, of n] run finish_completed [of c live pctx v s5]
  by (auto simp del: ngx_python_eval.simps)

lemma first_step_suspends:
  assumes fresh: "result (ctxs s c) = NULL"
    and st: "ngx_python_eval_start c (Some b) w s = Inr s1"
    and en: "ngx_python_eval_enter c s1 = (pctx, live, s2)"
    and pc: "platform_call s2 = (True, s3)"
    and run: "PyEval_EvalCode n b (ns (ctxs s c)) (save_ruc c s3) = Some (Switched, s5)"
    and same: "stepless b \<or> result (ctxs s5 c) = NGX_PYTHON_AGAIN"
  shows "\<exists>t. ngx_python_eval (Suc (Suc (Suc n))) c (Some b) (Some w) s =
               Some (NGX_PYTHON_AGAIN, t) \<and>
             result (ctxs t c) = NGX_PYTHON_AGAIN \<and> uc (ctxs t c) = uc (ctxs s5 c)"
proof -
  from eval_start_first [OF fresh st] have "result (ctxs s1 c) = NGX_PYTHON_AGAIN" by simp
  with entered_fields [OF en pc] have "result (ctxs (save_ruc c s3) c) = NGX_PYTHON_AGAIN" by simp
  with same run stepless_slot [of b n "ns (ctxs s c)" "save_ruc c s3" Switched s5 c]
  have "result (ctxs s5 c) = NGX_PYTHON_AGAIN" by auto
  from finish_suspended [OF this, of live pctx] first_step_runs_body [OF fresh st en pc, of n] run
  show ?thesis by (auto simp del: ngx_python_eval.simps)
qed

lemma resumed_step_completes:
  assumes pend: "result (ctxs s c) = NGX_PYTHON_AGAIN"
    and ucm: "uc_mcontext (uc (ctxs s c)) = In_yield k env"
    and en: "ngx_python_eval_enter c s = (pctx, live, s2)"
    and pc: "platform_call s2 = (True, s3)"
    and yr: "ngx_python_yield_regain c (save_ruc c s3) = (rc, s4)"
    and run: "PyEval_EvalCode n (k rc) env s4 = Some (Finished v, s5)"
  shows "\<exists>t. ngx_python_eval (Suc (Suc n)) c cd (Some w) s = Some (ptr_of v, t) \<and>
             result (ctxs t c) = NULL \<and> code (ctxs t c) = None \<and> wake (ctxs t c) = None"
  using resumed_step_runs_rest [OF pend ucm en pc yr, of n cd w] run
    finish_completed [of c live pctx v s5]
  by (auto simp del: ngx_python_eval.simps)

lemma resumed_step_suspends:
  assumes pend: "result (ctxs s c) = NGX_PYTHON_AGAIN"
    and ucm: "uc_mcontext (uc (ctxs s c)) = In_yield k env"
    and en: "ngx_python_eval_enter c s = (pctx, live, s2)"
    and pc: "platform_call s2 = (True, s3)"
    and yr: "ngx_python_yield_regain c (save_ruc c s3) = (rc, s4)"
    and run: "PyEval_EvalCode n (k rc) env s4 = Some (Switched, s5)"
    and same: "stepless (k rc) \<or> result (ctxs s5 c) = NGX_PYTHON_AGAIN"
  shows "\<exists>t. ngx_python_eval (Suc (Suc n)) c cd (Some w) s = Some (NGX_PYTHON_AGAIN, t) \<and>
             result (ctxs t c) = NGX_PYTHON_AGAIN \<and> uc (ctxs t c) = uc (ctxs s5 c)"
proof -
  from yr have "ctxs s4 = ctxs (save_ruc c s3)"
    by (auto simp: ngx_python_yield_regain_def split: if_splits)
  with pend entered_fields [OF en pc] have "result (ctxs s4 c) = NGX_PYTHON_AGAIN" by simp
  with same run stepless_slot [of "k rc" n env s4 Switched s5 c]
  have "result (ctxs s5 c) = NGX_PYTHON_AGAIN" by auto
  from finish_suspended [OF this, of live pctx]
    resumed_step_runs_rest [OF pend ucm en pc yr, of n cd w] run
  show ?thesis by (auto simp del: ngx_python_eval.simps)
qed

lemma eval_wake_completed:
  assumes "ngx_python_eval n c cd (Some w) s = Some (r, s')"
    and "r \<noteq> NGX_PYTHON_AGAIN" and "ngx_python_eval_start c cd w s = Inr s1"
  shows "code (ctxs s' c) = None \<and> wake (ctxs s' c) = None"
  using assms(1)
proof (cases rule: eval_wake_cases)
  case failed
  with assms(3) show ?thesis by simp
next
  case (switched s1 s4)
  with eval_finish_result assms(2) show ?thesis by blast
qed

section \<open>Stepping a terminated task\<close>











text \<open>The task with three blocking calls, after its first step.\<close>

lemma waiting_state_eq:
  "waiting_state =
     idle_state\<lparr>ctxs := (ctxs idle_state)(0 := (created_ctx 0 0 0 32768)
        \<lparr>code := Some waiting_body, result := NGX_PYTHON_AGAIN, wake := Some 7, stack := Some 4096,
         uc := \<lparr>uc_link = Some (Ruc 0), ss_sp = Some 4096, ss_size = 32768,
                uc_mcontext =
                  In_yield (\<lambda>rc.
                    Load ''done'' (\<lambda>v.
                      if v \<noteq> None then Done None
                      else Suspend (\<lambda>rc.
                             Inspect (\<lambda>p.
                               if curexc_type p \<noteq> Some PyExc_RuntimeError then Done None
                               else Suspend (\<lambda>rc. Done (if rc = NGX_OK then Some (PyObj 1)
                                                          else None)))))) 0\<rparr>,
         ruc := zero_uc\<lparr>uc_mcontext := In_eval\<rparr>\<rparr>),
       heap_top := 36864\<rparr>"
  by (simp add: waiting_state_def idle_state_def waiting_body_def engine_defs)


section \<open>Steps that return\<close>

text \<open>A body with no nested step comes to an end or to a switch, given fuel.\<close>

lemma stepless_returns:
  "stepless b \<Longrightarrow> \<exists>n oc s'. PyEval_EvalCode n b env s = Some (oc, s')"
proof (induction arbitrary: s rule: stepless.induct)
  case (1 r)
  have "PyEval_EvalCode (Suc 0) (Done r) env s = Some (Finished r, s)" by simp
  then show ?case by blast
next
  case (2 k)
  show ?case
  proof (cases "ngx_python_yield k env s")
    case (Inl p)
    obtain rc s1 where p: "p = (rc, s1)" by (cases p)
    from "2.IH" [of rc s1] obtain n oc s' where "PyEval_EvalCode n (k rc) env s1 = Some (oc, s')"
      by blast
    with Inl p have "PyEval_EvalCode (Suc n) (Suspend k) env s = Some (oc, s')" by simp
    then show ?thesis by blast
  next
    case (Inr s1)
    then have "PyEval_EvalCode (Suc 0) (Suspend k) env s = Some (Switched, s1)" by simp
    then show ?thesis by blast
  qed
next
  case (3 b f)
  from "3.IH" [of "s\<lparr>ps := f (ps s)\<rparr>"] obtain n oc s' where
    "PyEval_EvalCode n b env (s\<lparr>ps := f (ps s)\<rparr>) = Some (oc, s')" by blast
  then have "PyEval_EvalCode (Suc n) (Interp f b) env s = Some (oc, s')" by simp
  then show ?case by blast
next
  case (4 k)
  from "4.IH" [of "ps s" s] obtain n oc s' where
    "PyEval_EvalCode n (k (ps s)) env s = Some (oc, s')" by blast
  then have "PyEval_EvalCode (Suc n) (Inspect k) env s = Some (oc, s')" by simp
  then show ?case by blast
next
  case (5 k x)
  from "5.IH" [of "dicts s env x" s] obtain n oc s' where
    "PyEval_EvalCode n (k (dicts s env x)) env s = Some (oc, s')" by blast
  then have "PyEval_EvalCode (Suc n) (Load x k) env s = Some (oc, s')" by simp
  then show ?case by blast
next
  case (6 b x v)
  from "6.IH" [of "s\<lparr>dicts := (dicts s)(env := (dicts s env)(x := v))\<rparr>"] obtain n oc s' where
    "PyEval_EvalCode n b env (s\<lparr>dicts := (dicts s)(env := (dicts s env)(x := v))\<rparr>) = Some (oc, s')"
    by blast
  then have "PyEval_EvalCode (Suc n) (Store x v b) env s = Some (oc, s')" by simp
  then show ?case by blast
qed

lemma direct_returns:
  assumes "stepless b"
  shows "\<exists>n r s'. ngx_python_eval n c (Some b) None s = Some (r, s')"
proof -
  from stepless_returns [OF assms, of "ns (ctxs s c)" "s\<lparr>ngx_python_ctx := None\<rparr>"]
  obtain n oc s1 where
    run: "PyEval_EvalCode n b (ns (ctxs s c)) (s\<lparr>ngx_python_ctx := None\<rparr>) = Some (oc, s1)"
    by blast
  from PyEval_active [OF run] obtain r0 where oc: "oc = Finished r0"
    by (cases oc) simp_all
  from run oc have "ngx_python_eval (Suc n) c (Some b) None s =
      Some (ngx_python_eval_direct_return c (ngx_python_ctx s) r0 s1)"
    by (simp add: ngx_python_set_ctx_def)
  then show ?thesis by (metis prod.collapse)
qed



section \<open>The claims\<close>

subsection \<open>C1: the first step and the return of a step\<close>




subsection \<open>C2: a step restores the caller's interpreter state\<close>

text \<open>
  C2.  A step with a wake event saves the live interpreter state (recursion depth, frame,
  exception type, value and traceback) and the active-task pointer on entry and restores
  them on exit: whatever the stepped task B does, the caller finds them as they were.
  So when the body of a task A steps B, A goes on (with the value the step returned)
  in a state with A's own interpreter state and A as the active task.
\<close>

theorem step_restores_interpreter_state:
  assumes "ngx_python_eval n c cd (Some w) s = Some (r, s')"
  shows "ps s' = ps s \<and> ngx_python_ctx s' = ngx_python_ctx s \<and>
         PyEval_EvalCode (Suc n) (Step c cd (Some w) k) env s = PyEval_EvalCode n (k r) env s'"
proof -
  from assms have "ps s' = ps s \<and> ngx_python_ctx s' = ngx_python_ctx s"
  proof (cases rule: eval_wake_cases)
    case failed
    with eval_start_frame [of c cd w s s'] show ?thesis by simp
  next
    case (switched s1 s4)
    with eval_start_frame [of c cd w s s1] eval_finish_frame [of c "ps s1" "ngx_python_ctx s1" s4 r s']
    show ?thesis by simp
  qed
  with assms show ?thesis by simp
qed

theorem step_restores_interpreter_state_witness:
  "ngx_python_eval (Suc (Suc (Suc (Suc (Suc 0))))) 1 (Some raising_body) (Some 8) running_state
     \<noteq> None \<and>
   ps (snd (the (ngx_python_eval (Suc (Suc (Suc (Suc (Suc 0))))) 1 (Some raising_body) (Some 8)
                   running_state)))
     = ps running_state \<and>
   ngx_python_ctx (snd (the (ngx_python_eval (Suc (Suc (Suc (Suc (Suc 0))))) 1 (Some raising_body)
                               (Some 8) running_state)))
     = Some 0 \<and>
   recursion_depth (saved (ctxs (snd (the (ngx_python_eval (Suc (Suc (Suc (Suc (Suc 0))))) 1
                                             (Some raising_body) (Some 8) running_state))) 1))
     = 7"
proof -
  let ?X = "ngx_python_eval (Suc (Suc (Suc (Suc (Suc 0))))) 1 (Some raising_body) (Some 8)
              running_state"
  have some: "?X = Some (fst (the ?X), snd (the ?X))"
    by (simp add: running_state_def idle_state_def raising_body_def engine_defs)
  have sv: "recursion_depth (saved (ctxs (snd (the ?X)) 1)) = 7"
    by (simp add: running_state_def idle_state_def raising_body_def engine_defs)
  have ne: "?X \<noteq> None"
    by (subst some) simp
  have act: "ngx_python_ctx running_state = Some 0"
    by (simp add: running_state_def)
  from step_restores_interpreter_state [OF some]
  have a: "ps (snd (the ?X)) = ps running_state"
    and b: "ngx_python_ctx (snd (the ?X)) = ngx_python_ctx running_state"
    by blast+
  from b act have b': "ngx_python_ctx (snd (the ?X)) = Some 0"
    by (rule trans)
  show ?thesis
    by (intro conjI ne a b' sv)
qed

subsection \<open>C3: the result slot over the steps\<close>

text \<open>
  C3 (as amended).  Over one evaluation the result slot goes from \<^verbatim>\<open>NULL\<close> to pending
  and back to \<^verbatim>\<open>NULL\<close>; a completed result is handed to the caller and never kept.
  \<^item> A first step (the slot is \<^verbatim>\<open>NULL\<close>) that gets past the first-step block, and whose
    switch succeeds, makes the slot pending and runs the body it is given as the active
    task.  When the body returns \<open>v\<close>, the step returns \<open>v\<close> and clears the slot, the
    code and the wake event.  When the body suspends, the step returns the sentinel and
    the slot stays pending; this holds for every body with no nested step, and for any
    body that has left the slot alone.
  \<^item> A step on a pending task suspended in a blocking call runs the rest of the body
    from the return of that call, with the same two outcomes.
  \<^item> Every step that returns leaves the slot pending exactly when it returned the
    sentinel, and \<^verbatim>\<open>NULL\<close> otherwise; past the first-step block a completed step has
    cleared the code and the wake event; a pending return from a \<^verbatim>\<open>NULL\<close> slot went
    through the first-step block.
  \<^item> The engine does not refuse a later step on a completed task.  The slot is
    \<^verbatim>\<open>NULL\<close>, so that step is a first step again: it makes the context anew for the
    code and the wake event it is given and runs that body, to the same two outcomes.
\<close>

theorem result_slot_after_step:
  "(result (ctxs s c) = NULL \<and> ngx_python_eval_start c (Some b) w s = Inr s1 \<and>
    ngx_python_eval_enter c s1 = (pctx, live, s2) \<and> platform_call s2 = (True, s3) \<longrightarrow>
      result (ctxs s1 c) = NGX_PYTHON_AGAIN \<and> code (ctxs s1 c) = Some b \<and>
      wake (ctxs s1 c) = Some w \<and> ngx_python_ctx (save_ruc c s3) = Some c \<and>
      ps (save_ruc c s3) = saved (ctxs s c) \<and>
      (PyEval_EvalCode m b (ns (ctxs s c)) (save_ruc c s3) = Some (Finished v, s5) \<longrightarrow>
         (\<exists>t. ngx_python_eval (Suc (Suc (Suc m))) c (Some b) (Some w) s = Some (ptr_of v, t) \<and>
              result (ctxs t c) = NULL \<and> code (ctxs t c) = None \<and> wake (ctxs t c) = None)) \<and>
      (PyEval_EvalCode m b (ns (ctxs s c)) (save_ruc c s3) = Some (Switched, s5) \<and>
       (stepless b \<or> result (ctxs s5 c) = NGX_PYTHON_AGAIN) \<longrightarrow>
         (\<exists>t. ngx_python_eval (Suc (Suc (Suc m))) c (Some b) (Some w) s =
                 Some (NGX_PYTHON_AGAIN, t) \<and>
              result (ctxs t c) = NGX_PYTHON_AGAIN \<and> uc (ctxs t c) = uc (ctxs s5 c)))) \<and>
   (result (ctxs s c) = NGX_PYTHON_AGAIN \<and> uc_mcontext (uc (ctxs s c)) = In_yield k env \<and>
    ngx_python_eval_enter c s = (pctx, live, s2) \<and> platform_call s2 = (True, s3) \<and>
    ngx_python_yield_regain c (save_ruc c s3) = (rc, s4) \<longrightarrow>
      (PyEval_EvalCode m (k rc) env s4 = Some (Finished v, s5) \<longrightarrow>
         (\<exists>t. ngx_python_eval (Suc (Suc m)) c cd (Some w) s = Some (ptr_of v, t) \<and>
              result (ctxs t c) = NULL \<and> code (ctxs t c) = None \<and> wake (ctxs t c) = None)) \<and>
      (PyEval_EvalCode m (k rc) env s4 = Some (Switched, s5) \<and>
       (stepless (k rc) \<or> result (ctxs s5 c) = NGX_PYTHON_AGAIN) \<longrightarrow>
         (\<exists>t. ngx_python_eval (Suc (Suc m)) c cd (Some w) s = Some (NGX_PYTHON_AGAIN, t) \<and>
              result (ctxs t c) = NGX_PYTHON_AGAIN \<and> uc (ctxs t c) = uc (ctxs s5 c)))) \<and>
   (ngx_python_eval n c cd (Some w) s = Some (r, s') \<longrightarrow>
      (r = NGX_PYTHON_AGAIN \<longleftrightarrow> result (ctxs s' c) = NGX_PYTHON_AGAIN) \<and>
      (r \<noteq> NGX_PYTHON_AGAIN \<longrightarrow> result (ctxs s' c) = NULL) \<and>
      (r \<noteq> NGX_PYTHON_AGAIN \<and> ngx_python_eval_start c cd w s = Inr s1 \<longrightarrow>
         code (ctxs s' c) = None \<and> wake (ctxs s' c) = None) \<and>
      (result (ctxs s c) = NULL \<and> r = NGX_PYTHON_AGAIN \<longrightarrow>
         (\<exists>s1. ngx_python_eval_start c cd w s = Inr s1 \<and>
               result (ctxs s1 c) = NGX_PYTHON_AGAIN)) \<and>
      (result (ctxs s' c) = NULL \<and> faults s' = [] \<longrightarrow>
         (\<exists>t1. ngx_python_eval_start c cd2 w2 s' = Inr t1 \<and>
               uc_mcontext (uc (ctxs t1 c)) = Task_entry \<and> code (ctxs t1 c) = cd2 \<and>
               wake (ctxs t1 c) = Some w2 \<and> result (ctxs t1 c) = NGX_PYTHON_AGAIN)) \<and>
      (r \<noteq> NGX_PYTHON_AGAIN \<and> ngx_python_eval_start c (Some b2) w2 s' = Inr t1 \<and>
       ngx_python_eval_enter c t1 = (pctx2, live2, t2) \<and> platform_call t2 = (True, t3) \<longrightarrow>
         (PyEval_EvalCode m2 b2 (ns (ctxs s' c)) (save_ruc c t3) = Some (Finished v2, t5) \<longrightarrow>
            (\<exists>t. ngx_python_eval (Suc (Suc (Suc m2))) c (Some b2) (Some w2) s' =
                    Some (ptr_of v2, t) \<and>
                 result (ctxs t c) = NULL \<and> code (ctxs t c) = None \<and> wake (ctxs t c) = None)) \<and>
         (PyEval_EvalCode m2 b2 (ns (ctxs s' c)) (save_ruc c t3) = Some (Switched, t5) \<and>
          (stepless b2 \<or> result (ctxs t5 c) = NGX_PYTHON_AGAIN) \<longrightarrow>
            (\<exists>t. ngx_python_eval (Suc (Suc (Suc m2))) c (Some b2) (Some w2) s' =
                    Some (NGX_PYTHON_AGAIN, t) \<and>
                 result (ctxs t c) = NGX_PYTHON_AGAIN \<and> uc (ctxs t c) = uc (ctxs t5 c)))))"
  (is "?first \<and> ?resumed \<and> ?any")
proof (intro conjI)
  show ?first
  proof (intro impI conjI; (elim conjE)?)
    assume fresh: "result (ctxs s c) = NULL"
      and st: "ngx_python_eval_start c (Some b) w s = Inr s1"
    from eval_start_first [OF fresh st] show "result (ctxs s1 c) = NGX_PYTHON_AGAIN" by simp
  next
    assume fresh: "result (ctxs s c) = NULL"
      and st: "ngx_python_eval_start c (Some b) w s = Inr s1"
    from eval_start_first [OF fresh st] show "code (ctxs s1 c) = Some b" by simp
  next
    assume fresh: "result (ctxs s c) = NULL"
      and st: "ngx_python_eval_start c (Some b) w s = Inr s1"
    from eval_start_first [OF fresh st] show "wake (ctxs s1 c) = Some w" by simp
  next
    assume "ngx_python_eval_enter c s1 = (pctx, live, s2)" "platform_call s2 = (True, s3)"
    from entered_fields(1) [OF this] show "ngx_python_ctx (save_ruc c s3) = Some c" .
  next
    assume st: "ngx_python_eval_start c (Some b) w s = Inr s1"
      and en: "ngx_python_eval_enter c s1 = (pctx, live, s2)" "platform_call s2 = (True, s3)"
    from st have "saved (ctxs s1 c) = saved (ctxs s c)"
      by (auto simp: ngx_python_eval_start_def Let_def platform_call_eq ngx_palloc_eq upd_ctx_def
          split: if_splits)
    with entered_fields(2) [OF en] show "ps (save_ruc c s3) = saved (ctxs s c)" by simp
  next
    assume "result (ctxs s c) = NULL" "ngx_python_eval_start c (Some b) w s = Inr s1"
      "ngx_python_eval_enter c s1 = (pctx, live, s2)" "platform_call s2 = (True, s3)"
      "PyEval_EvalCode m b (ns (ctxs s c)) (save_ruc c s3) = Some (Finished v, s5)"
    then show "\<exists>t. ngx_python_eval (Suc (Suc (Suc m))) c (Some b) (Some w) s = Some (ptr_of v, t) \<and>
              result (ctxs t c) = NULL \<and> code (ctxs t c) = None \<and> wake (ctxs t c) = None"
      by (rule first_step_completes)
  next
    assume "result (ctxs s c) = NULL" "ngx_python_eval_start c (Some b) w s = Inr s1"
      "ngx_python_eval_enter c s1 = (pctx, live, s2)" "platform_call s2 = (True, s3)"
      "PyEval_EvalCode m b (ns (ctxs s c)) (save_ruc c s3) = Some (Switched, s5)"
      "stepless b \<or> result (ctxs s5 c) = NGX_PYTHON_AGAIN"
    then show "\<exists>t. ngx_python_eval (Suc (Suc (Suc m))) c (Some b) (Some w) s =
                 Some (NGX_PYTHON_AGAIN, t) \<and>
              result (ctxs t c) = NGX_PYTHON_AGAIN \<and> uc (ctxs t c) = uc (ctxs s5 c)"
      by (rule first_step_suspends)
  qed
next
  show ?resumed
  proof (intro impI conjI; (elim conjE)?)
    assume "result (ctxs s c) = NGX_PYTHON_AGAIN" "uc_mcontext (uc (ctxs s c)) = In_yield k env"
      "ngx_python_eval_enter c s = (pctx, live, s2)" "platform_call s2 = (True, s3)"
      "ngx_python_yield_regain c (save_ruc c s3) = (rc, s4)"
      "PyEval_EvalCode m (k rc) env s4 = Some (Finished v, s5)"
    then show "\<exists>t. ngx_python_eval (Suc (Suc m)) c cd (Some w) s = Some (ptr_of v, t) \<and>
              result (ctxs t c) = NULL \<and> code (ctxs t c) = None \<and> wake (ctxs t c) = None"
      by (rule resumed_step_completes)
  next
    assume "result (ctxs s c) = NGX_PYTHON_AGAIN" "uc_mcontext (uc (ctxs s c)) = In_yield k env"
      "ngx_python_eval_enter c s = (pctx, live, s2)" "platform_call s2 = (True, s3)"
      "ngx_python_yield_regain c (save_ruc c s3) = (rc, s4)"
      "PyEval_EvalCode m (k rc) env s4 = Some (Switched, s5)"
      "stepless (k rc) \<or> result (ctxs s5 c) = NGX_PYTHON_AGAIN"
    then show "\<exists>t. ngx_python_eval (Suc (Suc m)) c cd (Some w) s = Some (NGX_PYTHON_AGAIN, t) \<and>
              result (ctxs t c) = NGX_PYTHON_AGAIN \<and> uc (ctxs t c) = uc (ctxs s5 c)"
      by (rule resumed_step_suspends)
  qed
next
  show ?any
  proof (intro impI)
    assume ev: "ngx_python_eval n c cd (Some w) s = Some (r, s')"
    note res = eval_wake_result [OF ev]
    have started: "\<exists>s1. ngx_python_eval_start c cd w s = Inr s1 \<and>
                    result (ctxs s1 c) = NGX_PYTHON_AGAIN"
      if "result (ctxs s c) = NULL \<and> r = NGX_PYTHON_AGAIN"
      using ev
    proof (cases rule: eval_wake_cases)
      case failed
      with that show ?thesis by simp
    next
      case (switched s1 s4)
      with that eval_start_first [of s c cd w s1] show ?thesis by simp
    qed
    have again: "\<exists>t1. ngx_python_eval_start c cd2 w2 s' = Inr t1 \<and>
                    uc_mcontext (uc (ctxs t1 c)) = Task_entry \<and> code (ctxs t1 c) = cd2 \<and>
                    wake (ctxs t1 c) = Some w2 \<and> result (ctxs t1 c) = NGX_PYTHON_AGAIN"
      if "result (ctxs s' c) = NULL \<and> faults s' = []"
    proof -
      from that obtain t1 where t1: "ngx_python_eval_start c cd2 w2 s' = Inr t1"
        using eval_start_no_faults by blast
      with that eval_start_first [of s' c cd2 w2 t1] show ?thesis by simp
    qed
    show "(r = NGX_PYTHON_AGAIN \<longleftrightarrow> result (ctxs s' c) = NGX_PYTHON_AGAIN) \<and>
      (r \<noteq> NGX_PYTHON_AGAIN \<longrightarrow> result (ctxs s' c) = NULL) \<and>
      (r \<noteq> NGX_PYTHON_AGAIN \<and> ngx_python_eval_start c cd w s = Inr s1 \<longrightarrow>
         code (ctxs s' c) = None \<and> wake (ctxs s' c) = None) \<and>
      (result (ctxs s c) = NULL \<and> r = NGX_PYTHON_AGAIN \<longrightarrow>
         (\<exists>s1. ngx_python_eval_start c cd w s = Inr s1 \<and>
               result (ctxs s1 c) = NGX_PYTHON_AGAIN)) \<and>
      (result (ctxs s' c) = NULL \<and> faults s' = [] \<longrightarrow>
         (\<exists>t1. ngx_python_eval_start c cd2 w2 s' = Inr t1 \<and>
               uc_mcontext (uc (ctxs t1 c)) = Task_entry \<and> code (ctxs t1 c) = cd2 \<and>
               wake (ctxs t1 c) = Some w2 \<and> result (ctxs t1 c) = NGX_PYTHON_AGAIN)) \<and>
      (r \<noteq> NGX_PYTHON_AGAIN \<and> ngx_python_eval_start c (Some b2) w2 s' = Inr t1 \<and>
       ngx_python_eval_enter c t1 = (pctx2, live2, t2) \<and> platform_call t2 = (True, t3) \<longrightarrow>
         (PyEval_EvalCode m2 b2 (ns (ctxs s' c)) (save_ruc c t3) = Some (Finished v2, t5) \<longrightarrow>
            (\<exists>t. ngx_python_eval (Suc (Suc (Suc m2))) c (Some b2) (Some w2) s' =
                    Some (ptr_of v2, t) \<and>
                 result (ctxs t c) = NULL \<and> code (ctxs t c) = None \<and> wake (ctxs t c) = None)) \<and>
         (PyEval_EvalCode m2 b2 (ns (ctxs s' c)) (save_ruc c t3) = Some (Switched, t5) \<and>
          (stepless b2 \<or> result (ctxs t5 c) = NGX_PYTHON_AGAIN) \<longrightarrow>
            (\<exists>t. ngx_python_eval (Suc (Suc (Suc m2))) c (Some b2) (Some w2) s' =
                    Some (NGX_PYTHON_AGAIN, t) \<and>
                 result (ctxs t c) = NGX_PYTHON_AGAIN \<and> uc (ctxs t c) = uc (ctxs t5 c))))"
    proof (intro conjI impI; (elim conjE)?)
      from res show "(r = NGX_PYTHON_AGAIN) = (result (ctxs s' c) = NGX_PYTHON_AGAIN)" by auto
    next
      assume "r \<noteq> NGX_PYTHON_AGAIN"
      with res show "result (ctxs s' c) = NULL" by blast
    next
      assume "r \<noteq> NGX_PYTHON_AGAIN" "ngx_python_eval_start c cd w s = Inr s1"
      with eval_wake_completed [OF ev] show "code (ctxs s' c) = None" by blast
    next
      assume "r \<noteq> NGX_PYTHON_AGAIN" "ngx_python_eval_start c cd w s = Inr s1"
      with eval_wake_completed [OF ev] show "wake (ctxs s' c) = None" by blast
    next
      assume "result (ctxs s c) = NULL" "r = NGX_PYTHON_AGAIN"
      with started show "\<exists>s1. ngx_python_eval_start c cd w s = Inr s1 \<and>
                    result (ctxs s1 c) = NGX_PYTHON_AGAIN"
        by blast
    next
      assume "result (ctxs s' c) = NULL" "faults s' = []"
      with again show "\<exists>t1. ngx_python_eval_start c cd2 w2 s' = Inr t1 \<and>
               uc_mcontext (uc (ctxs t1 c)) = Task_entry \<and> code (ctxs t1 c) = cd2 \<and>
               wake (ctxs t1 c) = Some w2 \<and> result (ctxs t1 c) = NGX_PYTHON_AGAIN"
        by blast
    next
      assume "r \<noteq> NGX_PYTHON_AGAIN"
      with res have fresh: "result (ctxs s' c) = NULL" by blast
      assume "ngx_python_eval_start c (Some b2) w2 s' = Inr t1"
        "ngx_python_eval_enter c t1 = (pctx2, live2, t2)" "platform_call t2 = (True, t3)"
        "PyEval_EvalCode m2 b2 (ns (ctxs s' c)) (save_ruc c t3) = Some (Finished v2, t5)"
      with fresh show "\<exists>t. ngx_python_eval (Suc (Suc (Suc m2))) c (Some b2) (Some w2) s' =
                    Some (ptr_of v2, t) \<and>
                 result (ctxs t c) = NULL \<and> code (ctxs t c) = None \<and> wake (ctxs t c) = None"
        by (rule first_step_completes)
    next
      assume "r \<noteq> NGX_PYTHON_AGAIN"
      with res have fresh: "result (ctxs s' c) = NULL" by blast
      assume "ngx_python_eval_start c (Some b2) w2 s' = Inr t1"
        "ngx_python_eval_enter c t1 = (pctx2, live2, t2)" "platform_call t2 = (True, t3)"
        "PyEval_EvalCode m2 b2 (ns (ctxs s' c)) (save_ruc c t3) = Some (Switched, t5)"
        "stepless b2 \<or> result (ctxs t5 c) = NGX_PYTHON_AGAIN"
      with fresh show "\<exists>t. ngx_python_eval (Suc (Suc (Suc m2))) c (Some b2) (Some w2) s' =
                    Some (NGX_PYTHON_AGAIN, t) \<and>
                 result (ctxs t c) = NGX_PYTHON_AGAIN \<and> uc (ctxs t c) = uc (ctxs t5 c)"
        by (rule first_step_suspends)
    qed
  qed
qed

theorem result_slot_after_step_witness:
  "ngx_python_eval (Suc (Suc (Suc (Suc 0)))) 0 (Some sleeping_body) (Some 7) idle_state =
     Some (NGX_PYTHON_AGAIN, pending_state) \<and>
   result (ctxs pending_state 0) = NGX_PYTHON_AGAIN \<and>
   (\<exists>t. ngx_python_eval (Suc (Suc (Suc 0))) 0 None (Some 8) pending_state =
           Some (Object (PyObj 1), t) \<and>
        result (ctxs t 0) = NULL \<and> code (ctxs t 0) = None \<and> wake (ctxs t 0) = None) \<and>
   (\<exists>t. ngx_python_eval (Suc (Suc (Suc (Suc 0)))) 0 None (Some 8) waiting_state =
           Some (NGX_PYTHON_AGAIN, t) \<and>
        result (ctxs t 0) = NGX_PYTHON_AGAIN) \<and>
   ngx_python_eval (Suc (Suc (Suc (Suc (Suc (Suc 0)))))) 0 (Some counting_body) (Some 7) idle_state =
     Some (Object (PyObj 0), completed_state) \<and>
   result (ctxs completed_state 0) = NULL \<and> code (ctxs completed_state 0) = None \<and>
   wake (ctxs completed_state 0) = None \<and>
   (\<exists>t. ngx_python_eval (Suc (Suc (Suc (Suc (Suc (Suc 0)))))) 0 (Some counting_body) (Some 9)
           completed_state = Some (Object (PyObj 0), t) \<and>
        result (ctxs t 0) = NULL \<and> code (ctxs t 0) = None \<and> wake (ctxs t 0) = None) \<and>
   (\<exists>t. ngx_python_eval (Suc (Suc (Suc (Suc 0)))) 0 (Some sleeping_body) (Some 9)
           completed_state = Some (NGX_PYTHON_AGAIN, t) \<and>
        result (ctxs t 0) = NGX_PYTHON_AGAIN)"
proof -
  have fresh: "result (ctxs idle_state 0) = NULL"
    by (simp add: idle_state_def created_ctx_def)
  txt \<open>the first step on the sleeping body suspends\<close>
  let ?ev1 = "ngx_python_eval (Suc (Suc (Suc (Suc 0)))) 0 (Some sleeping_body) (Some 7) idle_state"
  define a1 where "a1 = projr (ngx_python_eval_start 0 (Some sleeping_body) 7 idle_state)"
  define a2 where "a2 = a1\<lparr>ngx_python_ctx := Some 0, ps := saved (ctxs a1 0)\<rparr>"
  define a5 where "a5 = snd (the (PyEval_EvalCode (Suc 0) sleeping_body 0 (save_ruc 0 a2)))"
  have a_st: "ngx_python_eval_start 0 (Some sleeping_body) 7 idle_state = Inr a1"
    unfolding a1_def by (simp add: idle_state_def engine_defs)
  have a_en: "ngx_python_eval_enter 0 a1 = (None, zero_ps, a2)"
    unfolding a2_def a1_def by (simp add: eval_enter_eq idle_state_def engine_defs)
  have a_pc: "platform_call a2 = (True, a2)"
    unfolding a2_def a1_def by (simp add: idle_state_def engine_defs)
  have a_run: "PyEval_EvalCode (Suc 0) sleeping_body (ns (ctxs idle_state 0)) (save_ruc 0 a2) =
      Some (Switched, a5)"
    unfolding a5_def a2_def a1_def by (simp add: idle_state_def sleeping_body_def engine_defs)
  have a_res: "result (ctxs a5 0) = NGX_PYTHON_AGAIN"
    unfolding a5_def a2_def a1_def by (simp add: idle_state_def sleeping_body_def engine_defs)
  from result_slot_after_step [where s = idle_state and c = 0 and b = sleeping_body and w = 7
      and ?s1.0 = a1 and pctx = None and live = zero_ps and ?s2.0 = a2 and ?s3.0 = a2
      and m = "Suc 0" and ?s5.0 = a5, THEN conjunct1]
    fresh a_st a_en a_pc a_run a_res
  obtain t where t: "?ev1 = Some (NGX_PYTHON_AGAIN, t)" "result (ctxs t 0) = NGX_PYTHON_AGAIN"
    by blast
  from t(1) have pt: "pending_state = t" by (simp add: pending_state_def del: ngx_python_eval.simps)
  from t pt have w1: "?ev1 = Some (NGX_PYTHON_AGAIN, pending_state)"
    and w2: "result (ctxs pending_state 0) = NGX_PYTHON_AGAIN"
    by simp_all
  txt \<open>a step on the suspended task completes it\<close>
  let ?k = "\<lambda>rc::int. if rc = NGX_OK then Done (Some (PyObj 1)) else Done None"
  define b2 where "b2 = pending_state\<lparr>ngx_python_ctx := Some 0, ps := saved (ctxs pending_state 0)\<rparr>"
  have b_ucm: "uc_mcontext (uc (ctxs pending_state 0)) = In_yield ?k 0"
    by (simp add: pending_state_eq)
  have b_en: "ngx_python_eval_enter 0 pending_state = (None, zero_ps, b2)"
    unfolding b2_def by (simp add: eval_enter_eq pending_state_eq idle_state_def)
  have b_pc: "platform_call b2 = (True, b2)"
    unfolding b2_def by (simp add: platform_call_eq pending_state_eq idle_state_def)
  have b_yr: "ngx_python_yield_regain 0 (save_ruc 0 b2) = (NGX_OK, save_ruc 0 b2)"
    unfolding b2_def
    by (simp add: ngx_python_yield_regain_def save_ruc_def upd_ctx_def pending_state_eq
        idle_state_def created_ctx_def)
  have b_run: "PyEval_EvalCode (Suc 0) (?k NGX_OK) 0 (save_ruc 0 b2) =
      Some (Finished (Some (PyObj 1)), save_ruc 0 b2)"
    by simp
  from result_slot_after_step [where s = pending_state and c = 0 and k = ?k and env = 0
      and pctx = None and live = zero_ps and ?s2.0 = b2 and ?s3.0 = b2 and rc = NGX_OK
      and ?s4.0 = "save_ruc 0 b2" and m = "Suc 0" and v = "Some (PyObj 1)"
      and ?s5.0 = "save_ruc 0 b2" and cd = None and w = 8, THEN conjunct2, THEN conjunct1]
    w2 b_ucm b_en b_pc b_yr b_run
  have w3: "\<exists>t. ngx_python_eval (Suc (Suc (Suc 0))) 0 None (Some 8) pending_state =
           Some (Object (PyObj 1), t) \<and>
        result (ctxs t 0) = NULL \<and> code (ctxs t 0) = None \<and> wake (ctxs t 0) = None"
    by simp
  txt \<open>a step on a task with more blocking calls suspends again\<close>
  let ?kw = "\<lambda>rc::int.
              Load ''done'' (\<lambda>v.
                if v \<noteq> None then Done None
                else Suspend (\<lambda>rc::int.
                       Inspect (\<lambda>p.
                         if curexc_type p \<noteq> Some PyExc_RuntimeError then Done None
                         else Suspend (\<lambda>rc. Done (if rc = NGX_OK then Some (PyObj 1)
                                                    else None)))))"
  define e2 where "e2 = waiting_state\<lparr>ngx_python_ctx := Some 0, ps := saved (ctxs waiting_state 0)\<rparr>"
  define e5 where "e5 = snd (the (PyEval_EvalCode (Suc (Suc 0)) (?kw NGX_OK) 0 (save_ruc 0 e2)))"
  have e_pre: "result (ctxs waiting_state 0) = NGX_PYTHON_AGAIN"
    "uc_mcontext (uc (ctxs waiting_state 0)) = In_yield ?kw 0"
    by (simp_all add: waiting_state_eq)
  have e_en: "ngx_python_eval_enter 0 waiting_state = (None, zero_ps, e2)"
    unfolding e2_def by (simp add: eval_enter_eq waiting_state_eq idle_state_def)
  have e_pc: "platform_call e2 = (True, e2)"
    unfolding e2_def by (simp add: platform_call_eq waiting_state_eq idle_state_def)
  have e_yr: "ngx_python_yield_regain 0 (save_ruc 0 e2) = (NGX_OK, save_ruc 0 e2)"
    unfolding e2_def
    by (simp add: ngx_python_yield_regain_def save_ruc_def upd_ctx_def waiting_state_eq
        idle_state_def created_ctx_def)
  have e_run: "PyEval_EvalCode (Suc (Suc 0)) (?kw NGX_OK) 0 (save_ruc 0 e2) = Some (Switched, e5)"
    unfolding e5_def e2_def by (simp add: waiting_state_eq idle_state_def engine_defs)
  have e_res: "result (ctxs e5 0) = NGX_PYTHON_AGAIN"
    unfolding e5_def e2_def by (simp add: waiting_state_eq idle_state_def engine_defs)
  from result_slot_after_step [where s = waiting_state and c = 0 and k = ?kw and env = 0
      and pctx = None and live = zero_ps and ?s2.0 = e2 and ?s3.0 = e2 and rc = NGX_OK
      and ?s4.0 = "save_ruc 0 e2" and m = "Suc (Suc 0)" and ?s5.0 = e5 and cd = None and w = 8,
      THEN conjunct2, THEN conjunct1]
    e_pre e_en e_pc e_yr e_run e_res
  have w4: "\<exists>t. ngx_python_eval (Suc (Suc (Suc (Suc 0)))) 0 None (Some 8) waiting_state =
           Some (NGX_PYTHON_AGAIN, t) \<and>
        result (ctxs t 0) = NGX_PYTHON_AGAIN"
    by blast
  txt \<open>the counting body completes in its first step\<close>
  let ?ev2 = "ngx_python_eval (Suc (Suc (Suc (Suc (Suc (Suc 0)))))) 0 (Some counting_body) (Some 7)
                idle_state"
  define c1 where "c1 = projr (ngx_python_eval_start 0 (Some counting_body) 7 idle_state)"
  define c2 where "c2 = c1\<lparr>ngx_python_ctx := Some 0, ps := saved (ctxs c1 0)\<rparr>"
  define c5 where "c5 = snd (the (PyEval_EvalCode (Suc (Suc (Suc 0))) counting_body 0 (save_ruc 0 c2)))"
  have c_st: "ngx_python_eval_start 0 (Some counting_body) 7 idle_state = Inr c1"
    unfolding c1_def by (simp add: idle_state_def engine_defs)
  have c_en: "ngx_python_eval_enter 0 c1 = (None, zero_ps, c2)"
    unfolding c2_def c1_def by (simp add: eval_enter_eq idle_state_def engine_defs)
  have c_pc: "platform_call c2 = (True, c2)"
    unfolding c2_def c1_def by (simp add: idle_state_def engine_defs)
  have c_run: "PyEval_EvalCode (Suc (Suc (Suc 0))) counting_body (ns (ctxs idle_state 0))
        (save_ruc 0 c2) = Some (Finished (Some (PyObj 0)), c5)"
    unfolding c5_def c2_def c1_def by (simp add: idle_state_def counting_body_def engine_defs)
  from result_slot_after_step [where s = idle_state and c = 0 and b = counting_body and w = 7
      and ?s1.0 = c1 and pctx = None and live = zero_ps and ?s2.0 = c2 and ?s3.0 = c2
      and m = "Suc (Suc (Suc 0))" and v = "Some (PyObj 0)" and ?s5.0 = c5, THEN conjunct1]
    fresh c_st c_en c_pc c_run
  obtain t2 where t2: "?ev2 = Some (ptr_of (Some (PyObj 0)), t2)" by blast
  from t2 have "completed_state = t2"
    by (simp add: completed_state_def del: ngx_python_eval.simps)
  with t2 have c_ev: "?ev2 = Some (Object (PyObj 0), completed_state)" by simp
  note any = result_slot_after_step [where s = idle_state and c = 0 and cd = "Some counting_body"
      and w = 7 and n = "Suc (Suc (Suc (Suc (Suc (Suc 0)))))" and r = "Object (PyObj 0)"
      and s' = completed_state and ?s1.0 = c1,
      THEN conjunct2, THEN conjunct2, THEN mp, OF c_ev]
  from any c_st have w5: "result (ctxs completed_state 0) = NULL"
    and w6: "code (ctxs completed_state 0) = None" and w7: "wake (ctxs completed_state 0) = None"
    by simp_all
  txt \<open>a later step on the completed task runs the body it is given\<close>
  define d1 where "d1 = projr (ngx_python_eval_start 0 (Some counting_body) 9 completed_state)"
  define d2 where "d2 = d1\<lparr>ngx_python_ctx := Some 0, ps := saved (ctxs d1 0)\<rparr>"
  define d5 where "d5 = snd (the (PyEval_EvalCode (Suc (Suc (Suc 0))) counting_body 0 (save_ruc 0 d2)))"
  have d_st: "ngx_python_eval_start 0 (Some counting_body) 9 completed_state = Inr d1"
    unfolding d1_def
    by (simp add: completed_state_def idle_state_def counting_body_def engine_defs)
  have d_en: "ngx_python_eval_enter 0 d1 = (None, zero_ps, d2)"
    unfolding d2_def d1_def
    by (simp add: eval_enter_eq completed_state_def idle_state_def counting_body_def engine_defs)
  have d_pc: "platform_call d2 = (True, d2)"
    unfolding d2_def d1_def
    by (simp add: completed_state_def idle_state_def counting_body_def engine_defs)
  have d_run: "PyEval_EvalCode (Suc (Suc (Suc 0))) counting_body (ns (ctxs completed_state 0))
        (save_ruc 0 d2) = Some (Finished (Some (PyObj 0)), d5)"
    unfolding d5_def d2_def d1_def
    by (simp add: completed_state_def idle_state_def counting_body_def engine_defs)
  from result_slot_after_step [where s = idle_state and c = 0 and cd = "Some counting_body"
      and w = 7 and n = "Suc (Suc (Suc (Suc (Suc (Suc 0)))))" and r = "Object (PyObj 0)"
      and s' = completed_state and ?b2.0 = counting_body and ?w2.0 = 9 and ?t1.0 = d1
      and ?pctx2.0 = None and ?live2.0 = zero_ps and ?t2.0 = d2 and ?t3.0 = d2
      and ?m2.0 = "Suc (Suc (Suc 0))" and ?v2.0 = "Some (PyObj 0)" and ?t5.0 = d5,
      THEN conjunct2, THEN conjunct2, THEN mp, OF c_ev]
    d_st d_en d_pc d_run
  have w8: "\<exists>t. ngx_python_eval (Suc (Suc (Suc (Suc (Suc (Suc 0)))))) 0 (Some counting_body) (Some 9)
           completed_state = Some (Object (PyObj 0), t) \<and>
        result (ctxs t 0) = NULL \<and> code (ctxs t 0) = None \<and> wake (ctxs t 0) = None"
    by simp
  define f1 where "f1 = projr (ngx_python_eval_start 0 (Some sleeping_body) 9 completed_state)"
  define f2 where "f2 = f1\<lparr>ngx_python_ctx := Some 0, ps := saved (ctxs f1 0)\<rparr>"
  define f5 where "f5 = snd (the (PyEval_EvalCode (Suc 0) sleeping_body 0 (save_ruc 0 f2)))"
  have f_st: "ngx_python_eval_start 0 (Some sleeping_body) 9 completed_state = Inr f1"
    unfolding f1_def
    by (simp add: completed_state_def idle_state_def counting_body_def engine_defs)
  have f_en: "ngx_python_eval_enter 0 f1 = (None, zero_ps, f2)"
    unfolding f2_def f1_def
    by (simp add: eval_enter_eq completed_state_def idle_state_def counting_body_def engine_defs)
  have f_pc: "platform_call f2 = (True, f2)"
    unfolding f2_def f1_def
    by (simp add: completed_state_def idle_state_def counting_body_def engine_defs)
  have f_run: "PyEval_EvalCode (Suc 0) sleeping_body (ns (ctxs completed_state 0))
        (save_ruc 0 f2) = Some (Switched, f5)"
    unfolding f5_def f2_def f1_def
    by (simp add: completed_state_def idle_state_def counting_body_def sleeping_body_def
        engine_defs)
  have f_res: "result (ctxs f5 0) = NGX_PYTHON_AGAIN"
    unfolding f5_def f2_def f1_def
    by (simp add: completed_state_def idle_state_def counting_body_def sleeping_body_def
        engine_defs)
  from result_slot_after_step [where s = idle_state and c = 0 and cd = "Some counting_body"
      and w = 7 and n = "Suc (Suc (Suc (Suc (Suc (Suc 0)))))" and r = "Object (PyObj 0)"
      and s' = completed_state and ?b2.0 = sleeping_body and ?w2.0 = 9 and ?t1.0 = f1
      and ?pctx2.0 = None and ?live2.0 = zero_ps and ?t2.0 = f2 and ?t3.0 = f2
      and ?m2.0 = "Suc 0" and ?t5.0 = f5,
      THEN conjunct2, THEN conjunct2, THEN mp, OF c_ev]
    f_st f_en f_pc f_run f_res
  have w9: "\<exists>t. ngx_python_eval (Suc (Suc (Suc (Suc 0)))) 0 (Some sleeping_body) (Some 9)
           completed_state = Some (NGX_PYTHON_AGAIN, t) \<and>
        result (ctxs t 0) = NGX_PYTHON_AGAIN"
    by simp blast
  show ?thesis by (intro conjI w1 w2 w3 w4 c_ev w5 w6 w7 w8 w9)
qed

text \<open>
  C3 as stated fails: task 0 runs the counting body to completion (the step returns the
  object, the slot is \<^verbatim>\<open>NULL\<close> again, the count is 1); a second step on the same task
  is accepted, starts over and runs the body again (the count is 2).
\<close>

theorem completed_task_stepped_again:
  "fst (the (ngx_python_eval (Suc (Suc (Suc (Suc (Suc (Suc 0)))))) 0 (Some counting_body) (Some 7)
               idle_state)) = Object (PyObj 0) \<and>
   result (ctxs completed_state 0) = NULL \<and>
   dicts completed_state 0 ''n'' = Some (PyObj 1) \<and>
   ngx_python_eval (Suc (Suc (Suc (Suc (Suc (Suc 0)))))) 0 (Some counting_body) (Some 7)
     completed_state \<noteq> None \<and>
   fst (the (ngx_python_eval (Suc (Suc (Suc (Suc (Suc (Suc 0)))))) 0 (Some counting_body) (Some 7)
               completed_state)) = Object (PyObj 0) \<and>
   dicts (snd (the (ngx_python_eval (Suc (Suc (Suc (Suc (Suc (Suc 0)))))) 0 (Some counting_body)
                      (Some 7) completed_state))) 0 ''n'' = Some (PyObj 2)"
  by (simp add: completed_state_def idle_state_def counting_body_def engine_defs)

subsection \<open>C4: suspending outside a task\<close>

text \<open>
  C4.  When no task is active, \<^verbatim>\<open>ngx_python_yield\<close> returns \<^verbatim>\<open>NGX_ERROR\<close> with the
  \<^verbatim>\<open>RuntimeError\<close> "blocking calls are not allowed" set, and does nothing else: the
  state differs from the one before in the pending exception only (no platform call, so
  no context switch, and no task record or stack touched).  A second call there fails in
  the same way and leaves the state as it is.  The body that made the call goes on with
  the error code.
\<close>

theorem yield_outside_task:
  assumes "ngx_python_ctx s = None"
  shows "ngx_python_yield k env s =
           Inl (NGX_ERROR,
                s\<lparr>ps := PyErr_SetString PyExc_RuntimeError ''blocking calls are not allowed'' (ps s)\<rparr>) \<and>
         ngx_python_yield k' env'
             (s\<lparr>ps := PyErr_SetString PyExc_RuntimeError ''blocking calls are not allowed'' (ps s)\<rparr>) =
           Inl (NGX_ERROR,
                s\<lparr>ps := PyErr_SetString PyExc_RuntimeError ''blocking calls are not allowed'' (ps s)\<rparr>) \<and>
         PyEval_EvalCode (Suc n) (Suspend k) env s =
           PyEval_EvalCode n (k NGX_ERROR) env
             (s\<lparr>ps := PyErr_SetString PyExc_RuntimeError ''blocking calls are not allowed'' (ps s)\<rparr>)"
  using assms
  by (simp add: ngx_python_yield_def ngx_python_get_ctx_def PyErr_SetString_def)

theorem yield_outside_task_witness:
  "ngx_python_yield (\<lambda>rc. Done None) 0 idle_state =
     Inl (NGX_ERROR,
          idle_state\<lparr>ps := PyErr_SetString PyExc_RuntimeError ''blocking calls are not allowed''
                             zero_ps\<rparr>) \<and>
   ngx_python_yield (\<lambda>rc. Done None) 0
       (idle_state\<lparr>ps := PyErr_SetString PyExc_RuntimeError ''blocking calls are not allowed''
                          zero_ps\<rparr>) =
     Inl (NGX_ERROR,
          idle_state\<lparr>ps := PyErr_SetString PyExc_RuntimeError ''blocking calls are not allowed''
                             zero_ps\<rparr>) \<and>
   PyEval_EvalCode (Suc (Suc 0)) (Suspend (\<lambda>rc. Done None)) 0 idle_state =
     Some (Finished None,
           idle_state\<lparr>ps := PyErr_SetString PyExc_RuntimeError ''blocking calls are not allowed''
                              zero_ps\<rparr>)"
  using yield_outside_task [of idle_state "\<lambda>rc. Done None" 0 "\<lambda>rc. Done None" 0 "Suc 0"]
  by (simp add: idle_state_def)

subsection \<open>C5: termination is observed at the suspension point\<close>

text \<open>
  C5.  A task resumed with its termination flag set comes back from
  \<^verbatim>\<open>ngx_python_yield\<close> with \<^verbatim>\<open>NGX_ERROR\<close> and the \<^verbatim>\<open>RuntimeError\<close> "terminated":
  the suspended body goes on with that code.  The call returns \<^verbatim>\<open>NGX_OK\<close> only when
  the flag is unset at resumption; every return without a switch is an error; and no
  step and no body clears the flag, so a terminated task never again returns
  successfully from the call.
\<close>

theorem terminated_task_fails_at_suspend:
  assumes "terminate (ctxs s c) \<noteq> 0"
  shows "ngx_python_yield_regain c s =
           (NGX_ERROR, s\<lparr>ps := PyErr_SetString PyExc_RuntimeError ''terminated'' (ps s)\<rparr>) \<and>
         (uc_mcontext (uc (ctxs s c)) = In_yield k env \<longrightarrow>
            setcontext_uc (Suc n) c s =
              (case PyEval_EvalCode n (k NGX_ERROR) env
                      (s\<lparr>ps := PyErr_SetString PyExc_RuntimeError ''terminated'' (ps s)\<rparr>) of
                 None \<Rightarrow> None
               | Some (Finished r, s2) \<Rightarrow> Some (task_handler_return c r s2)
               | Some (Switched, s2) \<Rightarrow> Some s2)) \<and>
         (ngx_python_yield k env s = Inl (rc, s1) \<longrightarrow> rc = NGX_ERROR) \<and>
         (ngx_python_eval n c' cd w s = Some (r', s') \<longrightarrow> terminate (ctxs s' c) \<noteq> 0) \<and>
         (PyEval_EvalCode n b env' s = Some (oc, s') \<longrightarrow> terminate (ctxs s' c) \<noteq> 0) \<and>
         (fst (ngx_python_yield_regain c t) = NGX_OK \<longleftrightarrow> terminate (ctxs t c) = 0)"
proof (intro conjI impI)
  from assms show "ngx_python_yield_regain c s =
      (NGX_ERROR, s\<lparr>ps := PyErr_SetString PyExc_RuntimeError ''terminated'' (ps s)\<rparr>)"
    by (simp add: ngx_python_yield_regain_def)
next
  assume "uc_mcontext (uc (ctxs s c)) = In_yield k env"
  with assms show "setcontext_uc (Suc n) c s =
      (case PyEval_EvalCode n (k NGX_ERROR) env
              (s\<lparr>ps := PyErr_SetString PyExc_RuntimeError ''terminated'' (ps s)\<rparr>) of
         None \<Rightarrow> None
       | Some (Finished r, s2) \<Rightarrow> Some (task_handler_return c r s2)
       | Some (Switched, s2) \<Rightarrow> Some s2)"
    by (simp add: ngx_python_yield_regain_def)
next
  assume "ngx_python_yield k env s = Inl (rc, s1)"
  then show "rc = NGX_ERROR" by (rule yield_returns_error)
next
  assume "ngx_python_eval n c' cd w s = Some (r', s')"
  then have "kept s s'" by (rule kept_eval)
  with assms show "terminate (ctxs s' c) \<noteq> 0" by (simp add: kept_def)
next
  assume "PyEval_EvalCode n b env' s = Some (oc, s')"
  then have "kept s s'" by (rule kept_PyEval)
  with assms show "terminate (ctxs s' c) \<noteq> 0" by (simp add: kept_def)
next
  show "(fst (ngx_python_yield_regain c t) = NGX_OK) = (terminate (ctxs t c) = 0)"
    by (simp add: ngx_python_yield_regain_def)
qed

theorem terminated_task_fails_at_suspend_witness:
  "terminate (ctxs terminating_state 0) \<noteq> 0 \<and>
   ngx_python_yield_regain 0 terminating_state =
     (NGX_ERROR,
      terminating_state\<lparr>ps := PyErr_SetString PyExc_RuntimeError ''terminated'' zero_ps\<rparr>) \<and>
   map_option (\<lambda>s. (result (ctxs s 0), error_log s))
     (setcontext_uc (Suc (Suc 0)) 0 terminating_state) =
     Some (NULL, [(0, Python_error (Some PyExc_RuntimeError) (Some (PyString ''terminated'')) None)])"
proof -
  have t: "terminate (ctxs terminating_state 0) \<noteq> 0"
    by (simp add: terminating_state_def)
  have u: "uc_mcontext (uc (ctxs terminating_state 0)) =
      In_yield (\<lambda>rc. if rc = NGX_OK then Done (Some (PyObj 1)) else Done None) 0"
    by (simp add: terminating_state_def pending_state_eq upd_ctx_def)
  have p: "ps terminating_state = zero_ps"
    by (simp add: terminating_state_def pending_state_eq idle_state_def)
  from terminated_task_fails_at_suspend [OF t, of "\<lambda>rc. if rc = NGX_OK then Done (Some (PyObj 1)) else Done None" 0 "Suc 0"] u p t
  show ?thesis
    by (simp add: task_handler_return_def log_python_error_def PyErr_SetString_def upd_ctx_def
        terminating_state_def pending_state_eq idle_state_def created_ctx_def)
qed

subsection \<open>C6: forced termination\<close>




subsection \<open>C7: evaluation without a wake event\<close>

text \<open>
  C7.  An evaluation with no wake event that returns \<open>r\<close> has run the body directly,
  against the task's namespace, on the live thread state and with no active task, to
  its end (it never switched away); \<open>r\<close> is what the body returned, an exception is
  logged, and the active-task pointer is as before.  Nothing else happens: for a body
  with no nested step, no task record (stack, contexts, saved interpreter state) is
  touched, no platform call is made and nothing is allocated.  With no active task
  every \<^verbatim>\<open>ngx_python_yield\<close> fails.  And the result and the log are those of the
  completed case of the other mode: the end of a step turns the same return of the body
  into the same result and the same log; and for a plain body, the first step of a
  fresh task from the same interpreter state completes with the same result, log and
  namespaces.  For a body with no nested step the evaluation does return, given fuel.
\<close>

theorem evaluation_without_wake_event:
  "(ngx_python_eval n c cd None s = Some (r, s') \<longrightarrow>
    (\<exists>m b r0 s1. n = Suc m \<and> cd = Some b \<and>
        PyEval_EvalCode m b (ns (ctxs s c)) (s\<lparr>ngx_python_ctx := None\<rparr>) = Some (Finished r0, s1) \<and>
        r = ptr_of r0 \<and>
        s' = (if r0 = None then log_python_error c s1 else s1)\<lparr>ngx_python_ctx := ngx_python_ctx s\<rparr> \<and>
        ngx_python_ctx s1 = None \<and>
        fst (ngx_python_eval_finish c live pctx (task_handler_return c r0 s1)) = r \<and>
        error_log (snd (ngx_python_eval_finish c live pctx (task_handler_return c r0 s1))) =
          error_log s') \<and>
    ngx_python_ctx s' = ngx_python_ctx s \<and>
    (\<forall>b. cd = Some b \<and> stepless b \<longrightarrow>
        ctxs s' = ctxs s \<and> faults s' = faults s \<and> heap_top s' = heap_top s) \<and>
    (\<forall>t k env. ngx_python_ctx t = None \<longrightarrow>
        ngx_python_yield k env t =
          Inl (NGX_ERROR,
               t\<lparr>ps := PyErr_SetString PyExc_RuntimeError ''blocking calls are not allowed'' (ps t)\<rparr>)) \<and>
    (\<forall>b w. cd = Some b \<and> plain b \<and> saved (ctxs s c) = ps s \<and> result (ctxs s c) = NULL \<and>
           faults s = [] \<longrightarrow>
        (\<exists>s2. ngx_python_eval (Suc (Suc n)) c cd (Some w) s = Some (r, s2) \<and>
              error_log s2 = error_log s' \<and> dicts s2 = dicts s' \<and>
              saved (ctxs s2 c) = ps s' \<and> ps s2 = ps s))) \<and>
   (\<forall>b. cd = Some b \<and> stepless b \<longrightarrow>
      (\<exists>n r s'. ngx_python_eval n c cd None s = Some (r, s')))"
  (is "(?ev \<longrightarrow> ?main) \<and> ?total")
proof -
  have main: ?main if ev: ?ev
  proof -
  from ev obtain m b r0 s1 where n: "n = Suc m" and cd: "cd = Some b"
    and run: "PyEval_EvalCode m b (ns (ctxs s c)) (s\<lparr>ngx_python_ctx := None\<rparr>) = Some (Finished r0, s1)"
    and r: "r = ptr_of r0"
    and s': "s' = (if r0 = None then log_python_error c s1 else s1)\<lparr>ngx_python_ctx := ngx_python_ctx s\<rparr>"
    by (cases rule: eval_direct_cases)
  from PyEval_active [OF run] have out: "ngx_python_ctx s1 = None" by simp
  from finish_after_return [of c live pctx r0 s1 "ngx_python_ctx s"] r s'
  have fin: "fst (ngx_python_eval_finish c live pctx (task_handler_return c r0 s1)) = r \<and>
        error_log (snd (ngx_python_eval_finish c live pctx (task_handler_return c r0 s1))) =
          error_log s'"
    by simp
  have part1: "\<exists>m b r0 s1. n = Suc m \<and> cd = Some b \<and>
        PyEval_EvalCode m b (ns (ctxs s c)) (s\<lparr>ngx_python_ctx := None\<rparr>) = Some (Finished r0, s1) \<and>
        r = ptr_of r0 \<and>
        s' = (if r0 = None then log_python_error c s1 else s1)\<lparr>ngx_python_ctx := ngx_python_ctx s\<rparr> \<and>
        ngx_python_ctx s1 = None \<and>
        fst (ngx_python_eval_finish c live pctx (task_handler_return c r0 s1)) = r \<and>
        error_log (snd (ngx_python_eval_finish c live pctx (task_handler_return c r0 s1))) =
          error_log s'"
    using n cd run r s' out fin by blast
  have part2: "ngx_python_ctx s' = ngx_python_ctx s"
    using ev by (rule eval_active)
  have part3: "ctxs s' = ctxs s \<and> faults s' = faults s \<and> heap_top s' = heap_top s"
    if "cd = Some b' \<and> stepless b'" for b'
  proof -
    from that cd have "stepless b" by simp
    from PyEval_stepless_outside [OF this _ run]
    have "ctxs s1 = ctxs s \<and> faults s1 = faults s \<and> heap_top s1 = heap_top s" by simp
    then show ?thesis by (simp add: s')
  qed
  have part4: "ngx_python_yield k env t =
          Inl (NGX_ERROR,
               t\<lparr>ps := PyErr_SetString PyExc_RuntimeError ''blocking calls are not allowed'' (ps t)\<rparr>)"
    if "ngx_python_ctx t = None" for t k env
    using that by (simp add: ngx_python_yield_def ngx_python_get_ctx_def)
  have part5: "\<exists>s2. ngx_python_eval (Suc (Suc n)) c cd (Some w) s = Some (r, s2) \<and>
              error_log s2 = error_log s' \<and> dicts s2 = dicts s' \<and>
              saved (ctxs s2 c) = ps s' \<and> ps s2 = ps s"
    if "cd = Some b' \<and> plain b' \<and> saved (ctxs s c) = ps s \<and> result (ctxs s c) = NULL \<and>
        faults s = []" for b' w
  proof -
    from that cd have pl: "plain b" and snap: "saved (ctxs s c) = ps s"
      and fresh: "result (ctxs s c) = NULL" and nf: "faults s = []" by simp_all
    from ev n cd have "ngx_python_eval (Suc m) c (Some b) None s = Some (r, s')" by simp
    from plain_body_both_modes [OF this pl snap fresh nf, of w] n cd show ?thesis by simp
  qed
  from part1 part2 part3 part4 part5 show ?thesis by blast
  qed
  have total: ?total
    using direct_returns [of _ c s] by blast
  from main total show ?thesis by blast
qed

theorem evaluation_without_wake_event_witness:
  "ngx_python_eval (Suc (Suc (Suc 0))) 0 (Some raising_body) None idle_state =
     Some (NULL,
           idle_state\<lparr>ps := \<lparr>recursion_depth = 7, frame = Some 99, curexc_type = None,
                               curexc_value = None, curexc_traceback = None\<rparr>,
                      error_log := [(0, Python_error (Some PyExc_RuntimeError)
                                          (Some (PyString ''boom'')) None)]\<rparr>) \<and>
   fst (the (ngx_python_eval (Suc (Suc (Suc (Suc (Suc 0))))) 0 (Some raising_body) (Some 7)
               idle_state)) = NULL \<and>
   error_log (snd (the (ngx_python_eval (Suc (Suc (Suc (Suc (Suc 0))))) 0 (Some raising_body)
                          (Some 7) idle_state))) =
     [(0, Python_error (Some PyExc_RuntimeError) (Some (PyString ''boom'')) None)]"
proof -
  let ?S = "idle_state\<lparr>ps := \<lparr>recursion_depth = 7, frame = Some 99, curexc_type = None,
                               curexc_value = None, curexc_traceback = None\<rparr>,
                      error_log := [(0, Python_error (Some PyExc_RuntimeError)
                                          (Some (PyString ''boom'')) None)]\<rparr>"
  have ev: "ngx_python_eval (Suc (Suc (Suc 0))) 0 (Some raising_body) None idle_state = Some (NULL, ?S)"
    by (simp add: idle_state_def raising_body_def engine_defs)
  have pre: "Some raising_body = Some raising_body \<and> plain raising_body \<and>
      saved (ctxs idle_state 0) = ps idle_state \<and> result (ctxs idle_state 0) = NULL \<and>
      faults idle_state = []"
    by (simp add: plain_raising_body idle_state_def created_ctx_def)
  from conjunct1 [OF evaluation_without_wake_event, THEN mp, OF ev] pre
  obtain s2 where
    w: "ngx_python_eval (Suc (Suc (Suc (Suc (Suc 0))))) 0 (Some raising_body) (Some 7) idle_state =
          Some (NULL, s2)"
    and l: "error_log s2 = error_log ?S"
    by blast
  have l': "error_log ?S = [(0, Python_error (Some PyExc_RuntimeError) (Some (PyString ''boom'')) None)]"
    by simp
  from w have a: "fst (the (ngx_python_eval (Suc (Suc (Suc (Suc (Suc 0))))) 0 (Some raising_body)
      (Some 7) idle_state)) = NULL"
    by (simp del: ngx_python_eval.simps)
  from w l l' have b: "error_log (snd (the (ngx_python_eval (Suc (Suc (Suc (Suc (Suc 0))))) 0
      (Some raising_body) (Some 7) idle_state))) =
      [(0, Python_error (Some PyExc_RuntimeError) (Some (PyString ''boom'')) None)]"
    by (simp del: ngx_python_eval.simps)
  show ?thesis by (intro conjI ev a b)
qed

subsection \<open>C8: failure of the platform's context calls\<close>

text \<open>
  C8.  The code at a failing input: the first step of a fresh task, where the allocation
  and \<^verbatim>\<open>getcontext\<close> succeed and \<^verbatim>\<open>swapcontext\<close> fails.  The failure is logged, but
  the step returns the pending sentinel with the result slot pending, and the body never
  ran.  The sibling paths do report: a failing \<^verbatim>\<open>getcontext\<close> makes the step return
  \<^verbatim>\<open>NULL\<close>, a failing \<^verbatim>\<open>swapcontext\<close> in \<^verbatim>\<open>ngx_python_yield\<close> raises
  \<^verbatim>\<open>OSError\<close> and returns \<^verbatim>\<open>NGX_ERROR\<close>.
\<close>

theorem swapcontext_failure_in_step:
  "ngx_python_eval (Suc (Suc (Suc (Suc 0)))) 0 (Some (Done (Some (PyObj 1)))) (Some 7)
     (idle_state\<lparr>faults := [False, False, True]\<rparr>) \<noteq> None \<and>
   fst (the (ngx_python_eval (Suc (Suc (Suc (Suc 0)))) 0 (Some (Done (Some (PyObj 1)))) (Some 7)
               (idle_state\<lparr>faults := [False, False, True]\<rparr>))) = NGX_PYTHON_AGAIN \<and>
   result (ctxs (snd (the (ngx_python_eval (Suc (Suc (Suc (Suc 0)))) 0 (Some (Done (Some (PyObj 1))))
                             (Some 7) (idle_state\<lparr>faults := [False, False, True]\<rparr>)))) 0) =
     NGX_PYTHON_AGAIN \<and>
   error_log (snd (the (ngx_python_eval (Suc (Suc (Suc (Suc 0)))) 0 (Some (Done (Some (PyObj 1))))
                          (Some 7) (idle_state\<lparr>faults := [False, False, True]\<rparr>)))) =
     [(0, Swapcontext_failed)] \<and>
   fst (the (ngx_python_eval (Suc (Suc (Suc (Suc 0)))) 0 (Some (Done (Some (PyObj 1)))) (Some 7)
               (idle_state\<lparr>faults := [False, True]\<rparr>))) = NULL \<and>
   ngx_python_yield (\<lambda>rc. Done None) 0 (running_state\<lparr>faults := [True]\<rparr>) =
     Inl (NGX_ERROR, running_state\<lparr>ps := PyErr_SetFromErrno PyExc_OSError (ps running_state)\<rparr>)"
  by (simp add: idle_state_def running_state_def engine_defs)

subsection \<open>C9: setting and restoring a named binding\<close>

text \<open>
  C9.  For every namespace, name and new value: \<^verbatim>\<open>ngx_python_set_value\<close>, then
  \<^verbatim>\<open>ngx_python_reset_value\<close> with the value the first returned, leaves every
  namespace as it was: the name is bound to its original value if it was bound, and is
  absent if it was absent.  This holds also when the insertion fails.
\<close>

theorem set_reset_value_roundtrip:
  "dicts (ngx_python_reset_value c name (fst (ngx_python_set_value c name v s))
            (snd (ngx_python_set_value c name v s))) = dicts s \<and>
   dicts (ngx_python_reset_value c name (fst (ngx_python_set_value c name v s))
            (snd (ngx_python_set_value c name v s))) (ns (ctxs s c)) name =
     dicts s (ns (ctxs s c)) name"
proof -
  let ?d = "ns (ctxs s c)"
  have "dicts (ngx_python_reset_value c name (fst (ngx_python_set_value c name v s))
            (snd (ngx_python_set_value c name v s))) = dicts s"
  proof (cases "dicts s ?d name")
    case (Some old)
    then show ?thesis
      by (simp add: set_value_bound ngx_python_reset_value_def)
  next
    case None
    have "((dicts s ?d)(name := Some v))(name := None) = dicts s ?d"
      using None by (simp add: fun_eq_iff)
    with None show ?thesis
      by (simp add: set_value_absent reset_value_dicts)
  qed
  then show ?thesis by simp
qed

subsection \<open>C10: a bound name is never replaced\<close>

text \<open>
  C10.  \<^verbatim>\<open>ngx_python_set_value\<close> installs the value only when the name is absent: when
  the name is bound, the call changes nothing and returns the bound value, and
  \<^verbatim>\<open>ngx_python_reset_value\<close> with that value changes nothing either (it deletes
  nothing); whenever the call does change a namespace, the name was absent before; and
  when the name is absent and the insertion succeeds, the value is installed and
  \<^verbatim>\<open>NULL\<close> is returned.
\<close>

theorem set_value_only_when_absent:
  "(dicts s (ns (ctxs s c)) name = Some old \<longrightarrow>
      ngx_python_set_value c name v s = (Some old, s) \<and>
      ngx_python_reset_value c name (Some old) s = s) \<and>
   (dicts (snd (ngx_python_set_value c name v s)) \<noteq> dicts s \<longrightarrow>
      dicts s (ns (ctxs s c)) name = None) \<and>
   (dicts s (ns (ctxs s c)) name = None \<and> (faults s = [] \<or> \<not> hd (faults s)) \<longrightarrow>
      fst (ngx_python_set_value c name v s) = None \<and>
      dicts (snd (ngx_python_set_value c name v s)) (ns (ctxs s c)) name = Some v)"
proof (intro conjI impI)
  assume "dicts s (ns (ctxs s c)) name = Some old"
  then show "ngx_python_set_value c name v s = (Some old, s)"
    by (rule set_value_bound)
next
  show "ngx_python_reset_value c name (Some old) s = s"
    by (simp add: ngx_python_reset_value_def)
next
  assume ch: "dicts (snd (ngx_python_set_value c name v s)) \<noteq> dicts s"
  show "dicts s (ns (ctxs s c)) name = None"
  proof (rule ccontr)
    assume "dicts s (ns (ctxs s c)) name \<noteq> None"
    then obtain old where "dicts s (ns (ctxs s c)) name = Some old" by blast
    then have "ngx_python_set_value c name v s = (Some old, s)" by (rule set_value_bound)
    with ch show False by simp
  qed
next
  assume a: "dicts s (ns (ctxs s c)) name = None \<and> (faults s = [] \<or> \<not> hd (faults s))"
  then show "fst (ngx_python_set_value c name v s) = None"
    by (simp add: set_value_absent)
next
  assume a: "dicts s (ns (ctxs s c)) name = None \<and> (faults s = [] \<or> \<not> hd (faults s))"
  then show "dicts (snd (ngx_python_set_value c name v s)) (ns (ctxs s c)) name = Some v"
    by (auto simp: set_value_absent)
qed

theorem set_value_only_when_absent_witness:
  "ngx_python_set_value 0 ''x'' (PyObj 2)
     (idle_state\<lparr>dicts := (\<lambda>_. (\<lambda>_. None)(''x'' := Some (PyObj 1)))\<rparr>) =
     (Some (PyObj 1), idle_state\<lparr>dicts := (\<lambda>_. (\<lambda>_. None)(''x'' := Some (PyObj 1)))\<rparr>) \<and>
   ngx_python_reset_value 0 ''x'' (Some (PyObj 1))
     (idle_state\<lparr>dicts := (\<lambda>_. (\<lambda>_. None)(''x'' := Some (PyObj 1)))\<rparr>) =
     idle_state\<lparr>dicts := (\<lambda>_. (\<lambda>_. None)(''x'' := Some (PyObj 1)))\<rparr> \<and>
   fst (ngx_python_set_value 0 ''y'' (PyObj 2)
     (idle_state\<lparr>dicts := (\<lambda>_. (\<lambda>_. None)(''x'' := Some (PyObj 1)))\<rparr>)) = None \<and>
   dicts (snd (ngx_python_set_value 0 ''y'' (PyObj 2)
     (idle_state\<lparr>dicts := (\<lambda>_. (\<lambda>_. None)(''x'' := Some (PyObj 1)))\<rparr>))) 0 ''y'' = Some (PyObj 2)"
  using set_value_only_when_absent
          [of "idle_state\<lparr>dicts := (\<lambda>_. (\<lambda>_. None)(''x'' := Some (PyObj 1)))\<rparr>" 0 "''x''"
              "PyObj 1" "PyObj 2"]
        set_value_only_when_absent
          [of "idle_state\<lparr>dicts := (\<lambda>_. (\<lambda>_. None)(''x'' := Some (PyObj 1)))\<rparr>" 0 "''y''"
              "PyObj 1" "PyObj 2"]
  by (simp add: idle_state_def created_ctx_def)

end
